theory Spec2Isabelle
  imports Complex_Main
begin

section \<open>pitemp: configuration loading\<close>

text \<open>
  A shallow embedding of \<^verbatim>\<open>src/pitemp.py\<close>. Python exceptions are values: a function
  that can raise returns \<open>py_exception + 'a\<close>, with \<open>Inl\<close> for the exception that leaves
  it. Calls to \<^verbatim>\<open>logging\<close> return nothing and decide no branch, so they are left out;
  the one place where evaluating the argument of a logging call raises (line 101) is
  modelled as that raise.
\<close>

datatype py_exception =
  ValueError | UnboundLocalError | AttributeError | OverflowError | OSError

subsection \<open>Strings\<close>

text \<open>
  A Python \<^verbatim>\<open>str\<close> is a sequence of Unicode code points, here a list of naturals. \<open>str\<close>
  writes the text of a literal of the source as such a sequence.
\<close>

type_synonym py_str = "nat list"

definition str :: "string \<Rightarrow> py_str" where
  "str s = map of_char s"

subsection \<open>The builtin \<^verbatim>\<open>int(str)\<close>\<close>

text \<open>
  \<^verbatim>\<open>int(s)\<close> in base ten, as CPython 3.11 computes it with its default settings.

  \<^item> The string is first brought to ASCII: a code point below 127 stays, any other
    Unicode space becomes a blank, any other Unicode decimal digit becomes the ASCII
    digit of its value, everything else becomes a question mark. The spaces and the
    digits are those of Unicode 14.0; the decimal digits come in runs of ten, listed
    by their zeros.
  \<^item> Then blanks, tabs, line feeds, vertical tabs, form feeds and carriage returns are
    skipped at both ends, one sign is allowed, and the digits may be grouped by single
    underscores.
  \<^item> A string of more than 4300 digits is refused.

  \<open>None\<close> stands for the \<^verbatim>\<open>ValueError\<close> that \<^verbatim>\<open>int\<close> raises on every string it refuses,
  the empty one included.
\<close>

definition unicode_spaces :: "nat list" where
  "unicode_spaces =
     [133, 160, 5760, 8192, 8193, 8194, 8195, 8196, 8197, 8198, 8199, 8200, 8201, 8202,
      8232, 8233, 8239, 8287, 12288]"

definition decimal_zeros :: "nat list" where
  "decimal_zeros =
     [48, 1632, 1776, 1984, 2406, 2534, 2662, 2790, 2918, 3046, 3174, 3302, 3430, 3558,
      3664, 3792, 3872, 4160, 4240, 6112, 6160, 6470, 6608, 6784, 6800, 6992, 7088, 7232,
      7248, 42528, 43216, 43264, 43472, 43504, 43600, 44016, 65296, 66720, 68912, 69734,
      69872, 69942, 70096, 70384, 70736, 70864, 71248, 71360, 71472, 71904, 72016, 72784,
      73040, 73120, 92768, 92864, 93008, 120782, 120792, 120802, 120812, 120822, 123200,
      123632, 125264, 130032]"

definition unicode_decimal :: "nat \<Rightarrow> nat option" where
  "unicode_decimal c =
     map_option (\<lambda>z. c - z) (find (\<lambda>z. z \<le> c \<and> c < z + 10) decimal_zeros)"

definition to_ascii :: "nat \<Rightarrow> nat" where
  "to_ascii c =
     (if c < 127 then c
      else if c \<in> set unicode_spaces then 32
      else (case unicode_decimal c of Some d \<Rightarrow> 48 + d | None \<Rightarrow> 63))"

definition py_isspace :: "nat \<Rightarrow> bool" where
  "py_isspace c = (c \<in> {9, 10, 11, 12, 13, 32})"

definition py_strip :: "py_str \<Rightarrow> py_str" where
  "py_strip s = rev (dropWhile py_isspace (rev (dropWhile py_isspace s)))"

definition digit_val :: "nat \<Rightarrow> nat option" where
  "digit_val c = (if 48 \<le> c \<and> c \<le> 57 then Some (c - 48) else None)"

fun py_digits :: "nat \<Rightarrow> py_str \<Rightarrow> nat option" where
  "py_digits acc [] = Some acc"
| "py_digits acc [c] =
     (case digit_val c of None \<Rightarrow> None | Some v \<Rightarrow> Some (acc * 10 + v))"
| "py_digits acc (c # d # ds) =
     (if c = 95
      then (case digit_val d of None \<Rightarrow> None | Some v \<Rightarrow> py_digits (acc * 10 + v) ds)
      else (case digit_val c of None \<Rightarrow> None | Some v \<Rightarrow> py_digits (acc * 10 + v) (d # ds)))"

definition max_str_digits :: nat where
  "max_str_digits = 4300"

definition py_nat :: "py_str \<Rightarrow> nat option" where
  "py_nat s =
     (if max_str_digits < length (filter (\<lambda>c. digit_val c \<noteq> None) s) then None
      else
        (case s of
           [] \<Rightarrow> None
         | c # cs \<Rightarrow> (case digit_val c of None \<Rightarrow> None | Some v \<Rightarrow> py_digits v cs)))"

definition py_int :: "py_str \<Rightarrow> int option" where
  "py_int s =
     (case py_strip (map to_ascii s) of
        [] \<Rightarrow> None
      | c # cs \<Rightarrow>
          if c = 45 then map_option (\<lambda>n. - int n) (py_nat cs)
          else if c = 43 then map_option int (py_nat cs)
          else map_option int (py_nat (c # cs)))"

subsection \<open>\<^verbatim>\<open>AppConfig\<close> and \<^verbatim>\<open>get_config\<close>\<close>

record AppConfig =
  es_host :: py_str
  es_port :: int
  es_index :: py_str
  doc_tag :: py_str
  pub_intvl :: int
  gpio_pin :: int
  sensor :: int

text \<open>
  Modelled from the spec: \<^verbatim>\<open>Adafruit_DHT.DHT22\<close>, the driver library's "sensor type
  identifier (integer/enum)"; the library numbers this model 22.
\<close>

definition DHT22 :: int where
  "DHT22 = 22"

definition SENSOR :: int where
  "SENSOR = DHT22"

text \<open>\<^verbatim>\<open>os.environ\<close> is a dictionary of strings; \<^verbatim>\<open>os.environ.get(k, d)\<close> reads it.\<close>

type_synonym environ = "py_str \<rightharpoonup> py_str"

definition environ_get :: "environ \<Rightarrow> py_str \<Rightarrow> py_str \<Rightarrow> py_str" where
  "environ_get env k d = (case env k of None \<Rightarrow> d | Some v \<Rightarrow> v)"

text \<open>
  The body of \<^verbatim>\<open>get_config\<close>, check by check in the order of the source.

  \<^item> Line 101: the handler of the \<^verbatim>\<open>ValueError\<close> of \<^verbatim>\<open>int(es_port_str)\<close> formats
    \<^verbatim>\<open>es_port\<close>, the local that the failed assignment of line 98 never bound. Reading it
    raises \<^verbatim>\<open>UnboundLocalError\<close>, which no handler catches: it leaves \<^verbatim>\<open>get_config\<close>,
    and line 102 is never reached.
  \<^item> Line 115: the emptiness test before \<^verbatim>\<open>PUB_INTVL\<close> is parsed looks at \<^verbatim>\<open>doc_tag\<close>,
    not at \<^verbatim>\<open>interval_str\<close>.
  \<^item> The two later handlers format the strings \<^verbatim>\<open>interval_str\<close> and \<^verbatim>\<open>gpio_pin_str\<close>,
    which are bound, and return \<^verbatim>\<open>1, None\<close>.
\<close>

definition get_config :: "environ \<Rightarrow> py_exception + (int \<times> AppConfig option)" where
  "get_config env =
     (let es_host_v = environ_get env (str ''ES_HOST'') (str '''') in
      if es_host_v = str '''' then Inr (1, None)
      else
        let es_port_str = environ_get env (str ''ES_PORT'') (str '''') in
        if es_port_str = str '''' then Inr (1, None)
        else
          (case py_int es_port_str of
             None \<Rightarrow> Inl UnboundLocalError
           | Some es_port_v \<Rightarrow>
               let es_index_v = environ_get env (str ''ES_INDEX'') (str '''') in
               if es_index_v = str '''' then Inr (1, None)
               else
                 let doc_tag_v = environ_get env (str ''DOC_TAG'') (str '''') in
                 if doc_tag_v = str '''' then Inr (1, None)
                 else
                   let interval_str = environ_get env (str ''PUB_INTVL'') (str '''') in
                   if doc_tag_v = str '''' then Inr (1, None)
                   else
                     (case py_int interval_str of
                        None \<Rightarrow> Inr (1, None)
                      | Some interval \<Rightarrow>
                          let gpio_pin_str = environ_get env (str ''GPIO_PIN'') (str '''') in
                          if gpio_pin_str = str '''' then Inr (1, None)
                          else
                            (case py_int gpio_pin_str of
                               None \<Rightarrow> Inr (1, None)
                             | Some gpio_pin_v \<Rightarrow>
                                 Inr (0, Some \<lparr>es_host = es_host_v,
                                               es_port = es_port_v,
                                               es_index = es_index_v,
                                               doc_tag = doc_tag_v,
                                               pub_intvl = interval,
                                               gpio_pin = gpio_pin_v,
                                               sensor = SENSOR\<rparr>)))))"

section \<open>The world outside the process\<close>

text \<open>
  The sensor driver, the clock, the model class of \<^verbatim>\<open>pydantic\<close> and the client of the
  index store are libraries, not code of this program. Each call of the program on one
  of them is appended to a log, \<open>calls\<close>, and what the call gives back is read from the
  world: the \<open>k\<close>-th read of the driver yields \<open>read_retry_results w k\<close>, the \<open>k\<close>-th reading
  of the clock \<open>now_results w k\<close>, the \<open>k\<close>-th indexing request \<open>index_results w k\<close>. What
  the driver, the model class and the client do is taken from the specification, which
  describes each as a call that returns; an exception raised inside one of them (a
  transport error of the client, say) is outside this model. \<^verbatim>\<open>time.sleep\<close> is modelled
  with the exceptions it raises on the intervals it refuses.

  Humidity and temperature are carried from the driver to the store and never computed
  with; they are modelled as reals. A point in time is a value of any type \<open>'t\<close>.
\<close>

datatype 't py_value = PyFloat real | PyDatetime 't | PyStr py_str | PyNone

datatype json =
    JStr py_str
  | JNum int
  | JBool bool
  | JNull
  | JArr "json list"
  | JObj "(py_str \<times> json) list"

datatype 't call =
    Call_Elasticsearch "(py_str \<times> int) list"
  | Call_indices_create py_str int
  | Call_sleep int
  | Call_read_retry int int
  | Call_now
  | Call_SensorReading real real 't py_str
  | Call_index py_str py_str "py_str \<rightharpoonup> 't py_value"

record 't world =
  read_retry_results :: "nat \<Rightarrow> real option \<times> real option"
  now_results :: "nat \<Rightarrow> 't"
  index_results :: "nat \<Rightarrow> (py_str \<rightharpoonup> json)"
  sleep_max :: int
  calls :: "'t call list"

fun is_read_retry :: "'t call \<Rightarrow> bool" where
  "is_read_retry (Call_read_retry s p) = True"
| "is_read_retry c = False"

fun is_now :: "'t call \<Rightarrow> bool" where
  "is_now Call_now = True"
| "is_now c = False"

fun is_index :: "'t call \<Rightarrow> bool" where
  "is_index (Call_index i d b) = True"
| "is_index c = False"

fun is_SensorReading :: "'t call \<Rightarrow> bool" where
  "is_SensorReading (Call_SensorReading h t ts g) = True"
| "is_SensorReading c = False"

definition count_calls :: "('t call \<Rightarrow> bool) \<Rightarrow> 't world \<Rightarrow> nat" where
  "count_calls P w = length (filter P (calls w))"

definition log_call :: "'t call \<Rightarrow> 't world \<Rightarrow> 't world" where
  "log_call c w = w\<lparr>calls := calls w @ [c]\<rparr>"

text \<open>
  \<^verbatim>\<open>time.sleep(secs)\<close> on an integer, of the standard library, as CPython 3.11 has it. The
  interval is first turned into 64-bit nanoseconds, which fails with \<^verbatim>\<open>OverflowError\<close>
  beyond 9223372036 seconds either way; a negative interval is then refused with
  \<^verbatim>\<open>ValueError\<close>; the rest is handed to the clock of the platform, which refuses an
  interval beyond its own range, \<open>sleep_max\<close>, with \<^verbatim>\<open>OSError\<close>. Any other interval is
  waited for, and the call returns.
\<close>

definition time_sleep :: "int \<Rightarrow> 't world \<Rightarrow> py_exception + 't world" where
  "time_sleep secs w =
     (if secs < - 9223372036 \<or> 9223372036 < secs then Inl OverflowError
      else if secs < 0 then Inl ValueError
      else if sleep_max w < secs then Inl OSError
      else Inr (log_call (Call_sleep secs) w))"

text \<open>
  Modelled from the spec: \<^verbatim>\<open>Adafruit_DHT.read_retry(sensor, pin)\<close>, of the driver library,
  "a black-box call that blocks and returns either valid readings or a failure signal".
  It returns a pair, each half a float or \<^verbatim>\<open>None\<close>.
\<close>

definition Adafruit_DHT_read_retry ::
  "int \<Rightarrow> int \<Rightarrow> 't world \<Rightarrow> (real option \<times> real option) \<times> 't world" where
  "Adafruit_DHT_read_retry sensor_v pin w =
     (read_retry_results w (count_calls is_read_retry w),
      log_call (Call_read_retry sensor_v pin) w)"

text \<open>
  \<^verbatim>\<open>datetime.now()\<close>, of the standard library, the clock that gives the time of the
  read.
\<close>

definition datetime_now :: "'t world \<Rightarrow> 't \<times> 't world" where
  "datetime_now w = (now_results w (count_calls is_now w), log_call Call_now w)"

text \<open>
  Modelled from the spec: \<^verbatim>\<open>Elasticsearch(hosts=[...])\<close>, of the client library, which is
  to "establish store connection". The one host entry \<^verbatim>\<open>"host:port"\<close> is kept as a pair.
\<close>

datatype es_client = Elasticsearch "(py_str \<times> int) list"

definition Elasticsearch_init :: "(py_str \<times> int) list \<Rightarrow> 't world \<Rightarrow> es_client \<times> 't world" where
  "Elasticsearch_init hosts w = (Elasticsearch hosts, log_call (Call_Elasticsearch hosts) w)"

text \<open>
  Modelled from the spec: \<^verbatim>\<open>es.indices.create(index=..., ignore=...)\<close>, of the client
  library, which is to "ensure index exists".
\<close>

definition es_indices_create :: "es_client \<Rightarrow> py_str \<Rightarrow> int \<Rightarrow> 't world \<Rightarrow> 't world" where
  "es_indices_create es idx ignore w = log_call (Call_indices_create idx ignore) w"

text \<open>
  Modelled from the spec: \<^verbatim>\<open>es.index(index=..., doc_type=..., body=...)\<close>, of the client
  library, "an HTTP client that accepts a document and returns a created/not-created
  result". The result is the store's response, a dictionary.
\<close>

definition es_index_doc ::
  "es_client \<Rightarrow> py_str \<Rightarrow> py_str \<Rightarrow> (py_str \<rightharpoonup> 't py_value) \<Rightarrow> 't world
     \<Rightarrow> (py_str \<rightharpoonup> json) \<times> 't world" where
  "es_index_doc es idx doc_type body w =
     (index_results w (count_calls is_index w), log_call (Call_index idx doc_type body) w)"

text \<open>\<^verbatim>\<open>d.get(k, default)\<close> on a dictionary.\<close>

definition dict_get :: "('k \<rightharpoonup> 'v) \<Rightarrow> 'k \<Rightarrow> 'v \<Rightarrow> 'v" where
  "dict_get d k default_v = (case d k of None \<Rightarrow> default_v | Some v \<Rightarrow> v)"

section \<open>Readings\<close>

text \<open>
  \<^verbatim>\<open>class SensorReading(BaseModel)\<close>: four fields with defaults \<^verbatim>\<open>0\<close>, \<^verbatim>\<open>0\<close>, \<^verbatim>\<open>None\<close>, \<^verbatim>\<open>""\<close>.
\<close>

record 't SensorReading =
  hum_rh :: real
  temp_c :: real
  timestamp :: "'t option"
  location :: py_str

text \<open>
  Modelled from the spec: the constructor that \<^verbatim>\<open>SensorReading\<close> inherits from the model
  library. A reading is "constructed fresh on each successful sensor read" from the
  humidity, the temperature, the timestamp and the location tag; given floats, a point
  in time and a string the constructor keeps them as they are. The call is logged like
  the others.
\<close>

definition SensorReading_init ::
  "real \<Rightarrow> real \<Rightarrow> 't \<Rightarrow> py_str \<Rightarrow> 't world \<Rightarrow> 't SensorReading \<times> 't world" where
  "SensorReading_init h t ts g w =
     (\<lparr>hum_rh = h, temp_c = t, timestamp = Some ts, location = g\<rparr>,
      log_call (Call_SensorReading h t ts g) w)"

text \<open>\<^verbatim>\<open>sensor_data.dict()\<close>\<close>

definition SensorReading_dict :: "'t SensorReading \<Rightarrow> (py_str \<rightharpoonup> 't py_value)" where
  "SensorReading_dict r =
     [str ''hum_rh'' \<mapsto> PyFloat (hum_rh r),
      str ''temp_c'' \<mapsto> PyFloat (temp_c r),
      str ''timestamp'' \<mapsto> (case timestamp r of None \<Rightarrow> PyNone | Some ts \<Rightarrow> PyDatetime ts),
      str ''location'' \<mapsto> PyStr (location r)]"

section \<open>\<^verbatim>\<open>read_sensor\<close> and \<^verbatim>\<open>publish_data\<close>\<close>

text \<open>
  \<^verbatim>\<open>read_sensor\<close> returns \<^verbatim>\<open>1, 0, 0, datetime.now()\<close> when either half of the driver's
  pair is \<^verbatim>\<open>None\<close> (line 57), and \<^verbatim>\<open>0, hum_rh, temp_c, datetime.now()\<close> otherwise. The two
  zeros of the failure tuple are the integer 0 in the source and the real 0 here.
  \<^verbatim>\<open>publish_data\<close> sends one request and compares the \<^verbatim>\<open>result\<close> field of the response,
  or \<^verbatim>\<open>""\<close> when there is none, with \<^verbatim>\<open>"created"\<close>.
\<close>

definition read_sensor ::
  "int \<Rightarrow> int \<Rightarrow> 't world \<Rightarrow> (int \<times> real \<times> real \<times> 't) \<times> 't world" where
  "read_sensor sensor_v gpio_pin_v w =
     (let ((hum_v, temp_v), w1) = Adafruit_DHT_read_retry sensor_v gpio_pin_v w in
      case (hum_v, temp_v) of
        (None, _) \<Rightarrow> (let (ts, w2) = datetime_now w1 in ((1, 0, 0, ts), w2))
      | (_, None) \<Rightarrow> (let (ts, w2) = datetime_now w1 in ((1, 0, 0, ts), w2))
      | (Some h, Some t) \<Rightarrow> (let (ts, w2) = datetime_now w1 in ((0, h, t, ts), w2)))"

definition publish_data :: "es_client \<Rightarrow> py_str \<Rightarrow> 't SensorReading \<Rightarrow> 't world \<Rightarrow> int \<times> 't world" where
  "publish_data es doc_index sensor_data w =
     (let (result, w1) =
            es_index_doc es doc_index (str ''sensor_data'') (SensorReading_dict sensor_data) w in
      if dict_get result (str ''result'') (JStr (str '''')) \<noteq> JStr (str ''created'')
      then (1, w1) else (0, w1))"

section \<open>The main loop\<close>

text \<open>
  How one pass through the body of a \<^verbatim>\<open>while\<close> loop ends: at its last statement, at a
  \<^verbatim>\<open>continue\<close>, at a \<^verbatim>\<open>break\<close>, or with an exception. \<^verbatim>\<open>while True:\<close> goes on after the
  first two, stops at the third, and is left by the exception at the fourth; a loop
  that never stops has no value, which is \<open>None\<close>.
\<close>

datatype 'w flow = Fallthrough 'w | Continue 'w | Break 'w | Raise py_exception 'w

partial_function (option)
  while_True :: "('w \<Rightarrow> 'w flow) \<Rightarrow> 'w \<Rightarrow> (py_exception \<times> 'w + 'w) option" where
  "while_True body w =
     (case body w of
        Fallthrough w' \<Rightarrow> while_True body w'
      | Continue w' \<Rightarrow> while_True body w'
      | Break w' \<Rightarrow> Some (Inr w')
      | Raise e w' \<Rightarrow> Some (Inl (e, w')))"

text \<open>
  The world after \<open>n\<close> whole passes, for looking at a run that never ends: \<open>None\<close> when
  the loop was left before the \<open>n\<close>-th pass was over.
\<close>

fun passes :: "nat \<Rightarrow> ('w \<Rightarrow> 'w flow) \<Rightarrow> 'w \<Rightarrow> 'w option" where
  "passes 0 body w = Some w"
| "passes (Suc n) body w =
     (case body w of
        Fallthrough w' \<Rightarrow> passes n body w'
      | Continue w' \<Rightarrow> passes n body w'
      | Break w' \<Rightarrow> None
      | Raise e w' \<Rightarrow> None)"

text \<open>
  Lines 162 to 169, the body of the loop of \<^verbatim>\<open>run\<close>. An exception of \<^verbatim>\<open>time.sleep\<close> is
  caught nowhere: it ends the pass before anything else is called.
\<close>

definition loop_body :: "es_client \<Rightarrow> AppConfig \<Rightarrow> 't world \<Rightarrow> 't world flow" where
  "loop_body es config w =
     (case time_sleep (pub_intvl config) w of
        Inl e \<Rightarrow> Raise e w
      | Inr w1 \<Rightarrow>
          (let ((rc, hum, temp, ts), w2) = read_sensor (sensor config) (gpio_pin config) w1 in
           if rc \<noteq> 0 then Continue w2
           else
             let (sensor_data, w3) = SensorReading_init hum temp ts (doc_tag config) w2;
                 (rc_publish, w4) = publish_data es (es_index config) sensor_data w3
             in Fallthrough w4))"

text \<open>
  \<^verbatim>\<open>run\<close>: the client, the index, the loop, and after the loop \<^verbatim>\<open>return 0\<close>. An exception
  that leaves the loop leaves \<^verbatim>\<open>run\<close>.
\<close>

definition run :: "AppConfig \<Rightarrow> 't world \<Rightarrow> ((py_exception + int) \<times> 't world) option" where
  "run config w =
     (let (es, w1) = Elasticsearch_init [(es_host config, es_port config)] w;
          w2 = es_indices_create es (es_index config) 400 w1 in
      case while_True (loop_body es config) w2 of
        None \<Rightarrow> None
      | Some (Inl (e, w3)) \<Rightarrow> Some (Inl e, w3)
      | Some (Inr w3) \<Rightarrow> Some (Inr 0, w3))"

section \<open>The entry point\<close>

text \<open>
  How the process ends: \<^verbatim>\<open>sys.exit(n)\<close>, or an exception that nothing caught, which the
  interpreter reports with a traceback and the exit status 1. A process that never ends
  has no value.
\<close>

datatype process_end = SystemExit int | Traceback py_exception

fun exit_status :: "process_end \<Rightarrow> int" where
  "exit_status (SystemExit n) = n"
| "exit_status (Traceback e) = 1"

definition main :: "environ \<Rightarrow> 't world \<Rightarrow> process_end option" where
  "main env w =
     (case get_config env of
        Inl e \<Rightarrow> Some (Traceback e)
      | Inr (rc, app_cfg) \<Rightarrow>
          if rc \<noteq> 0 then Some (SystemExit 1)
          else
            (case app_cfg of
               None \<Rightarrow> Some (Traceback AttributeError)
             | Some config \<Rightarrow>
                 (case run config w of
                    None \<Rightarrow> None
                  | Some (Inl e, w') \<Rightarrow> Some (Traceback e)
                  | Some (Inr r, w') \<Rightarrow> Some (SystemExit r))))"

section \<open>Names and examples used in the statements\<close>

text \<open>The six variables that \<^verbatim>\<open>get_config\<close> reads, and the three it hands to \<^verbatim>\<open>int\<close>.\<close>

definition required_vars :: "py_str list" where
  "required_vars =
     [str ''ES_HOST'', str ''ES_PORT'', str ''ES_INDEX'', str ''DOC_TAG'', str ''PUB_INTVL'',
      str ''GPIO_PIN'']"

definition numeric_vars :: "py_str list" where
  "numeric_vars = [str ''ES_PORT'', str ''PUB_INTVL'', str ''GPIO_PIN'']"

text \<open>
  The environments on which line 100 is reached: \<^verbatim>\<open>ES_HOST\<close> and \<^verbatim>\<open>ES_PORT\<close> are not
  empty and \<^verbatim>\<open>int\<close> refuses \<^verbatim>\<open>ES_PORT\<close>.
\<close>

definition port_handler_reached :: "environ \<Rightarrow> bool" where
  "port_handler_reached env =
     (environ_get env (str ''ES_HOST'') (str '''') \<noteq> str '''' \<and>
      environ_get env (str ''ES_PORT'') (str '''') \<noteq> str '''' \<and>
      py_int (environ_get env (str ''ES_PORT'') (str '''')) = None)"

text \<open>The intervals that \<^verbatim>\<open>time.sleep\<close> waits for in a world.\<close>

definition sleep_accepts :: "int \<Rightarrow> 't world \<Rightarrow> bool" where
  "sleep_accepts secs w = (0 \<le> secs \<and> secs \<le> 9223372036 \<and> secs \<le> sleep_max w)"

text \<open>An environment with every variable set and well formed, and its configuration.\<close>

definition example_environ :: environ where
  "example_environ =
     map_of [(str ''ES_HOST'', str ''localhost''), (str ''ES_PORT'', str ''9200''),
             (str ''ES_INDEX'', str ''pitemp''), (str ''DOC_TAG'', str ''garage''),
             (str ''PUB_INTVL'', str ''60''), (str ''GPIO_PIN'', str ''4'')]"

definition example_config :: AppConfig where
  "example_config =
     \<lparr>es_host = str ''localhost'', es_port = 9200, es_index = str ''pitemp'',
      doc_tag = str ''garage'', pub_intvl = 60, gpio_pin = 4, sensor = 22\<rparr>"

text \<open>
  Four worlds, each with a clock that counts its readings and a platform that waits for
  up to \<open>2147483647\<close> seconds. In the first the driver reads 55.2 percent and 21.3 degrees
  every time and the store answers \<^verbatim>\<open>created\<close>; in the second the driver fails every
  time; in the third the driver reads and the store answers \<^verbatim>\<open>noop\<close>; in the fourth the
  driver fails at the first read and reads from then on.
\<close>

definition example_world :: "nat world" where
  "example_world =
     \<lparr>read_retry_results = (\<lambda>k. (Some 55.2, Some 21.3)),
      now_results = (\<lambda>k. k),
      index_results = (\<lambda>k. [str ''result'' \<mapsto> JStr (str ''created'')]),
      sleep_max = 2147483647,
      calls = []\<rparr>"

definition failing_world :: "nat world" where
  "failing_world =
     \<lparr>read_retry_results = (\<lambda>k. (None, None)),
      now_results = (\<lambda>k. k),
      index_results = (\<lambda>k. [str ''result'' \<mapsto> JStr (str ''noop'')]),
      sleep_max = 2147483647,
      calls = []\<rparr>"

definition rejecting_world :: "nat world" where
  "rejecting_world =
     \<lparr>read_retry_results = (\<lambda>k. (Some 55.2, Some 21.3)),
      now_results = (\<lambda>k. k),
      index_results = (\<lambda>k. [str ''result'' \<mapsto> JStr (str ''noop'')]),
      sleep_max = 2147483647,
      calls = []\<rparr>"

definition recovering_world :: "nat world" where
  "recovering_world =
     \<lparr>read_retry_results = (\<lambda>k. if k = 0 then (None, None) else (Some 55.2, Some 21.3)),
      now_results = (\<lambda>k. k),
      index_results = (\<lambda>k. [str ''result'' \<mapsto> JStr (str ''created'')]),
      sleep_max = 2147483647,
      calls = []\<rparr>"

definition example_client :: es_client where
  "example_client = Elasticsearch [(str ''localhost'', 9200)]"

section \<open>Facts about strings, \<^verbatim>\<open>get_config\<close> and the entry point\<close>

lemma str_eq_iff: "str a = str b \<longleftrightarrow> a = b"
  by (simp add: str_def inj_map_eq_map inj_def)

lemmas int_defs =
  py_int_def py_strip_def py_isspace_def py_nat_def digit_val_def to_ascii_def str_def
  max_str_digits_def

lemma py_int_empty: "py_int (str '''') = None"
  by (simp add: int_defs)

lemma get_config_raises_iff:
  "get_config env = Inl e \<longleftrightarrow> e = UnboundLocalError \<and> port_handler_reached env"
  by (auto simp: get_config_def port_handler_reached_def Let_def split: option.splits)

lemma get_config_returns:
  "get_config env = Inr (rc, cfg) \<Longrightarrow> (rc = 1 \<and> cfg = None) \<or> (rc = 0 \<and> cfg \<noteq> None)"
  by (auto simp: get_config_def Let_def split: option.splits if_splits)

lemma get_config_blank:
  assumes "v \<in> set required_vars" and "environ_get env v (str '''') = str ''''"
    and "\<not> port_handler_reached env"
  shows "get_config env = Inr (1, None)"
  using assms
  by (auto simp: required_vars_def get_config_def port_handler_reached_def Let_def py_int_empty
      split: option.splits)

lemma get_config_malformed:
  assumes "v = str ''PUB_INTVL'' \<or> v = str ''GPIO_PIN''"
    and "py_int (environ_get env v (str '''')) = None"
    and "\<not> port_handler_reached env"
  shows "get_config env = Inr (1, None)"
  using assms
  by (auto simp: get_config_def port_handler_reached_def Let_def split: option.splits)

lemma get_config_success:
  assumes "get_config env = Inr (0, cfg)"
  shows "\<exists>port intvl pin.
           py_int (environ_get env (str ''ES_PORT'') (str '''')) = Some port \<and>
           py_int (environ_get env (str ''PUB_INTVL'') (str '''')) = Some intvl \<and>
           py_int (environ_get env (str ''GPIO_PIN'') (str '''')) = Some pin \<and>
           environ_get env (str ''ES_HOST'') (str '''') \<noteq> str '''' \<and>
           environ_get env (str ''ES_INDEX'') (str '''') \<noteq> str '''' \<and>
           environ_get env (str ''DOC_TAG'') (str '''') \<noteq> str '''' \<and>
           cfg = Some \<lparr>es_host = environ_get env (str ''ES_HOST'') (str ''''), es_port = port,
                       es_index = environ_get env (str ''ES_INDEX'') (str ''''),
                       doc_tag = environ_get env (str ''DOC_TAG'') (str ''''),
                       pub_intvl = intvl, gpio_pin = pin, sensor = SENSOR\<rparr>"
  using assms
  by (auto simp: get_config_def Let_def split: option.splits if_splits)

lemma main_of_failure: "get_config env = Inr (1, None) \<Longrightarrow> main env w = Some (SystemExit 1)"
  by (simp add: main_def)

lemma main_of_raise: "get_config env = Inl e \<Longrightarrow> main env w = Some (Traceback e)"
  by (simp add: main_def)

lemmas example_defs =
  get_config_def example_environ_def example_config_def environ_get_def str_eq_iff
  SENSOR_def DHT22_def

lemma py_int_examples:
  "py_int (str ''9200'') = Some 9200"
  "py_int (str ''60'') = Some 60"
  "py_int (str ''4'') = Some 4"
  "py_int (str ''17'') = Some 17"
  "py_int (str ''-5'') = Some (- 5)"
  "py_int (str ''nine'') = None"
  "py_int (str ''abc'') = None"
  "py_int (str ''9200/tcp'') = None"
  "py_int (str ''http'') = None"
  "py_int (str ''D4'') = None"
  by (simp_all add: int_defs)

lemma str_not_empty:
  "str ''localhost'' \<noteq> str ''''" "str ''pitemp'' \<noteq> str ''''" "str ''garage'' \<noteq> str ''''"
  "str ''attic'' \<noteq> str ''''" "str ''9200'' \<noteq> str ''''" "str ''60'' \<noteq> str ''''"
  "str ''4'' \<noteq> str ''''" "str ''17'' \<noteq> str ''''" "str ''-5'' \<noteq> str ''''"
  "str ''nine'' \<noteq> str ''''" "str ''abc'' \<noteq> str ''''" "str ''9200/tcp'' \<noteq> str ''''"
  "str ''http'' \<noteq> str ''''" "str ''D4'' \<noteq> str ''''"
  by (simp_all add: str_eq_iff)

lemma get_config_example:
  "get_config example_environ = Inr (0, Some example_config)"
  by (simp add: example_defs py_int_examples str_not_empty)

section \<open>Facts about the loop\<close>

lemma time_sleep_accepts:
  "sleep_accepts secs w \<Longrightarrow> time_sleep secs w = Inr (w\<lparr>calls := calls w @ [Call_sleep secs]\<rparr>)"
  by (simp add: sleep_accepts_def time_sleep_def log_call_def)

lemma time_sleep_refuses: "\<not> sleep_accepts secs w \<Longrightarrow> \<exists>e. time_sleep secs w = Inl e"
  by (auto simp: sleep_accepts_def time_sleep_def)

lemma time_sleep_Inr:
  "time_sleep secs w = Inr w1 \<Longrightarrow>
     sleep_accepts secs w \<and> w1 = w\<lparr>calls := calls w @ [Call_sleep secs]\<rparr>"
  by (auto simp: sleep_accepts_def time_sleep_def log_call_def split: if_splits)

lemma sleep_accepts_cong: "sleep_max w' = sleep_max w \<Longrightarrow> sleep_accepts secs w' = sleep_accepts secs w"
  by (simp add: sleep_accepts_def)

lemma loop_body_never_breaks: "loop_body es c w \<noteq> Break w'"
  by (simp add: loop_body_def Let_def split: prod.splits sum.splits)

lemma loop_body_refused:
  assumes "time_sleep (pub_intvl c) w = Inl e"
  shows "loop_body es c w = Raise e w"
  using assms by (simp add: loop_body_def)

lemma while_True_Some_Inr:
  assumes "while_True body w = Some r"
  shows "\<forall>y. r = Inr y \<longrightarrow> (\<exists>w0. body w0 = Break y)"
proof (rule while_True.raw_induct
    [where P = "\<lambda>b w r. \<forall>y. r = Inr y \<longrightarrow> (\<exists>w0. b w0 = Break y)", OF _ assms])
  fix wt :: "('a \<Rightarrow> 'a flow) \<Rightarrow> 'a \<Rightarrow> (py_exception \<times> 'a + 'a) option" and b w r
  assume IH: "\<And>b w r. wt b w = Some r \<Longrightarrow> \<forall>y. r = Inr y \<longrightarrow> (\<exists>w0. b w0 = Break y)"
    and step: "(case b w of Fallthrough w' \<Rightarrow> wt b w' | Continue w' \<Rightarrow> wt b w'
                | Break w' \<Rightarrow> Some (Inr w') | Raise e w' \<Rightarrow> Some (Inl (e, w'))) = Some r"
  show "\<forall>y. r = Inr y \<longrightarrow> (\<exists>w0. b w0 = Break y)"
  proof (cases "b w")
    case (Fallthrough w')
    with step have "wt b w' = Some r" by simp
    then show ?thesis by (rule IH)
  next
    case (Continue w')
    with step have "wt b w' = Some r" by simp
    then show ?thesis by (rule IH)
  next
    case (Break w')
    with step have "r = Inr w'" by simp
    with Break show ?thesis by auto
  next
    case (Raise e w')
    with step have "r = Inl (e, w')" by simp
    then show ?thesis by simp
  qed
qed

lemma while_True_Inr_breaks:
  assumes "while_True body w = Some (Inr y)"
  shows "\<exists>w0. body w0 = Break y"
  using while_True_Some_Inr [OF assms] by simp

lemma while_True_Some_passes:
  assumes "while_True body w = Some r"
  shows "\<exists>n. passes n body w = None"
proof (rule while_True.raw_induct [where P = "\<lambda>b w r. \<exists>n. passes n b w = None", OF _ assms])
  fix wt :: "('a \<Rightarrow> 'a flow) \<Rightarrow> 'a \<Rightarrow> (py_exception \<times> 'a + 'a) option" and b w r
  assume IH: "\<And>b w r. wt b w = Some r \<Longrightarrow> \<exists>n. passes n b w = None"
    and step: "(case b w of Fallthrough w' \<Rightarrow> wt b w' | Continue w' \<Rightarrow> wt b w'
                | Break w' \<Rightarrow> Some (Inr w') | Raise e w' \<Rightarrow> Some (Inl (e, w'))) = Some r"
  show "\<exists>n. passes n b w = None"
  proof (cases "b w")
    case (Fallthrough w')
    with step have "wt b w' = Some r" by simp
    then obtain n where "passes n b w' = None" using IH by blast
    with Fallthrough have "passes (Suc n) b w = None" by simp
    then show ?thesis ..
  next
    case (Continue w')
    with step have "wt b w' = Some r" by simp
    then obtain n where "passes n b w' = None" using IH by blast
    with Continue have "passes (Suc n) b w = None" by simp
    then show ?thesis ..
  next
    case (Break w')
    then have "passes (Suc 0) b w = None" by simp
    then show ?thesis ..
  next
    case (Raise e w')
    then have "passes (Suc 0) b w = None" by simp
    then show ?thesis ..
  qed
qed

lemma passes_None_while_True: "passes n body w = None \<Longrightarrow> while_True body w \<noteq> None"
proof (induction n arbitrary: w)
  case 0
  then show ?case by simp
next
  case (Suc n)
  then show ?case
    by (cases "body w") (auto simp: while_True.simps [of body w])
qed

lemma while_True_None_iff: "while_True body w = None \<longleftrightarrow> (\<forall>n. passes n body w \<noteq> None)"
  using while_True_Some_passes [of body w] passes_None_while_True [of _ body w]
  by (cases "while_True body w") auto

lemma passes_Suc_right:
  "passes (Suc n) body w =
     (case passes n body w of None \<Rightarrow> None | Some wn \<Rightarrow> passes (Suc 0) body wn)"
proof (induction n arbitrary: w)
  case 0
  then show ?case by (simp split: flow.splits)
next
  case (Suc n)
  show ?case
  proof (cases "body w")
    case (Fallthrough w')
    then have "passes (Suc (Suc n)) body w = passes (Suc n) body w'" by simp
    also have "\<dots> = (case passes n body w' of None \<Rightarrow> None | Some wn \<Rightarrow> passes (Suc 0) body wn)"
      by (rule Suc.IH)
    also have "passes n body w' = passes (Suc n) body w" using Fallthrough by simp
    finally show ?thesis .
  next
    case (Continue w')
    then have "passes (Suc (Suc n)) body w = passes (Suc n) body w'" by simp
    also have "\<dots> = (case passes n body w' of None \<Rightarrow> None | Some wn \<Rightarrow> passes (Suc 0) body wn)"
      by (rule Suc.IH)
    also have "passes n body w' = passes (Suc n) body w" using Continue by simp
    finally show ?thesis .
  next
    case (Break w')
    then show ?thesis by simp
  next
    case (Raise e w')
    then show ?thesis by simp
  qed
qed

lemma read_sensor_failed:
  assumes "read_retry_results w (count_calls is_read_retry w) = (hum, temp)"
    and "hum = None \<or> temp = None"
  shows "read_sensor s p w =
     ((1, 0, 0, now_results w (count_calls is_now w)),
      w\<lparr>calls := calls w @ [Call_read_retry s p, Call_now]\<rparr>)"
  using assms
  by (auto simp: read_sensor_def Adafruit_DHT_read_retry_def datetime_now_def count_calls_def
      log_call_def split: option.splits)

lemma read_sensor_ok:
  assumes "read_retry_results w (count_calls is_read_retry w) = (Some h, Some t)"
  shows "read_sensor s p w =
     ((0, h, t, now_results w (count_calls is_now w)),
      w\<lparr>calls := calls w @ [Call_read_retry s p, Call_now]\<rparr>)"
  using assms
  by (simp add: read_sensor_def Adafruit_DHT_read_retry_def datetime_now_def count_calls_def
      log_call_def)

lemma read_sensor_cases:
  assumes "read_sensor s p w = ((rc, h, t, ts), w')"
  shows "w' = w\<lparr>calls := calls w @ [Call_read_retry s p, Call_now]\<rparr> \<and>
         ts = now_results w (count_calls is_now w) \<and>
         (rc = 0 \<and> read_retry_results w (count_calls is_read_retry w) = (Some h, Some t) \<or>
          rc = 1 \<and> h = 0 \<and> t = 0 \<and>
          (fst (read_retry_results w (count_calls is_read_retry w)) = None \<or>
           snd (read_retry_results w (count_calls is_read_retry w)) = None))"
proof (cases "read_retry_results w (count_calls is_read_retry w)")
  case (Pair hum temp)
  show ?thesis
  proof (cases "hum = None \<or> temp = None")
    case True
    from read_sensor_failed [OF Pair True, of s p] assms Pair True show ?thesis by auto
  next
    case False
    then obtain h' t' where "hum = Some h'" "temp = Some t'" by auto
    with Pair have ok: "read_retry_results w (count_calls is_read_retry w) = (Some h', Some t')"
      by simp
    from read_sensor_ok [OF ok, of s p] assms ok show ?thesis by auto
  qed
qed

lemma after_sleep:
  "count_calls is_read_retry (w\<lparr>calls := calls w @ [Call_sleep n]\<rparr>) = count_calls is_read_retry w"
  "count_calls is_now (w\<lparr>calls := calls w @ [Call_sleep n]\<rparr>) = count_calls is_now w"
  "count_calls is_index (w\<lparr>calls := calls w @ [Call_sleep n]\<rparr>) = count_calls is_index w"
  by (simp_all add: count_calls_def)

lemma loop_body_read_failed:
  assumes "sleep_accepts (pub_intvl c) w"
    and "read_retry_results w (count_calls is_read_retry w) = (hum, temp)"
    and "hum = None \<or> temp = None"
  shows "loop_body es c w =
     Continue (w\<lparr>calls := calls w @
       [Call_sleep (pub_intvl c), Call_read_retry (sensor c) (gpio_pin c), Call_now]\<rparr>)"
proof -
  let ?w1 = "w\<lparr>calls := calls w @ [Call_sleep (pub_intvl c)]\<rparr>"
  have "read_retry_results ?w1 (count_calls is_read_retry ?w1) = (hum, temp)"
    using assms(2) by (simp add: count_calls_def)
  from read_sensor_failed [OF this assms(3)] time_sleep_accepts [OF assms(1)] show ?thesis
    by (simp add: loop_body_def count_calls_def)
qed

lemma loop_body_read_ok:
  assumes "sleep_accepts (pub_intvl c) w"
    and "read_retry_results w (count_calls is_read_retry w) = (Some h, Some t)"
  shows "loop_body es c w =
     Fallthrough (w\<lparr>calls := calls w @
       [Call_sleep (pub_intvl c), Call_read_retry (sensor c) (gpio_pin c), Call_now,
        Call_SensorReading h t (now_results w (count_calls is_now w)) (doc_tag c),
        Call_index (es_index c) (str ''sensor_data'')
          [str ''hum_rh'' \<mapsto> PyFloat h, str ''temp_c'' \<mapsto> PyFloat t,
           str ''timestamp'' \<mapsto> PyDatetime (now_results w (count_calls is_now w)),
           str ''location'' \<mapsto> PyStr (doc_tag c)]]\<rparr>)"
proof -
  let ?w1 = "w\<lparr>calls := calls w @ [Call_sleep (pub_intvl c)]\<rparr>"
  have "read_retry_results ?w1 (count_calls is_read_retry ?w1) = (Some h, Some t)"
    using assms(2) by (simp add: count_calls_def)
  from read_sensor_ok [OF this] time_sleep_accepts [OF assms(1)] show ?thesis
    by (simp add: loop_body_def count_calls_def log_call_def Let_def
        SensorReading_init_def publish_data_def es_index_doc_def SensorReading_dict_def
        split: prod.splits)
qed

lemma loop_body_shape:
  assumes "sleep_accepts (pub_intvl c) w"
  shows "\<exists>w' rest.
     (loop_body es c w = Continue w' \<and> rest = [] \<or>
      loop_body es c w = Fallthrough w' \<and>
      (\<exists>h t ts body. rest = [Call_SensorReading h t ts (doc_tag c),
                              Call_index (es_index c) (str ''sensor_data'') body])) \<and>
     sleep_max w' = sleep_max w \<and>
     calls w' = calls w @
       [Call_sleep (pub_intvl c), Call_read_retry (sensor c) (gpio_pin c), Call_now] @ rest"
proof (cases "read_retry_results w (count_calls is_read_retry w)")
  case (Pair hum temp)
  show ?thesis
  proof (cases "hum = None \<or> temp = None")
    case True
    from loop_body_read_failed [OF assms Pair True, of es] show ?thesis by simp
  next
    case False
    then obtain h t where "hum = Some h" "temp = Some t" by auto
    with Pair have "read_retry_results w (count_calls is_read_retry w) = (Some h, Some t)"
      by simp
    from loop_body_read_ok [OF assms this, of es] show ?thesis by simp
  qed
qed

lemma passes_one:
  assumes "sleep_accepts (pub_intvl c) w"
  shows "\<exists>w' rest. passes (Suc 0) (loop_body es c) w = Some w' \<and>
     sleep_max w' = sleep_max w \<and>
     calls w' = calls w @
       [Call_sleep (pub_intvl c), Call_read_retry (sensor c) (gpio_pin c), Call_now] @ rest \<and>
     (rest = [] \<or>
      (\<exists>h t ts body. rest = [Call_SensorReading h t ts (doc_tag c),
                              Call_index (es_index c) (str ''sensor_data'') body]))"
  using loop_body_shape [OF assms, of es] by auto

lemma passes_loop_body_Some:
  assumes "sleep_accepts (pub_intvl c) w"
  shows "\<exists>wn. passes n (loop_body es c) w = Some wn \<and> sleep_max wn = sleep_max w"
  using assms
proof (induction n arbitrary: w)
  case 0
  then show ?case by simp
next
  case (Suc n)
  from loop_body_shape [OF Suc.prems, of es] obtain w'
    where body: "loop_body es c w = Continue w' \<or> loop_body es c w = Fallthrough w'"
      and same: "sleep_max w' = sleep_max w"
    by blast
  from same Suc.prems have "sleep_accepts (pub_intvl c) w'"
    by (simp add: sleep_accepts_def)
  from Suc.IH [OF this] obtain wn
    where "passes n (loop_body es c) w' = Some wn" and "sleep_max wn = sleep_max w'"
    by blast
  with body same show ?case by auto
qed

lemma while_True_loop_body:
  assumes "sleep_accepts (pub_intvl c) w"
  shows "while_True (loop_body es c) w = None"
proof -
  have "\<forall>n. passes n (loop_body es c) w \<noteq> None"
    using passes_loop_body_Some [OF assms, of _ es] by (metis option.distinct(1))
  then show ?thesis by (simp add: while_True_None_iff)
qed

lemma while_True_loop_body_refused:
  assumes "time_sleep (pub_intvl c) w = Inl e"
  shows "while_True (loop_body es c) w = Some (Inl (e, w))"
  using loop_body_refused [OF assms, of es]
  by (simp add: while_True.simps [of "loop_body es c" w])

lemma while_True_loop_body_not_Inr: "while_True (loop_body es c) w \<noteq> Some (Inr y)"
proof
  assume "while_True (loop_body es c) w = Some (Inr y)"
  from while_True_Inr_breaks [OF this] obtain w0 where "loop_body es c w0 = Break y" ..
  then show False by (simp add: loop_body_never_breaks)
qed

lemma run_None:
  assumes "sleep_accepts (pub_intvl c) w"
  shows "run c w = None"
proof -
  let ?es = "Elasticsearch [(es_host c, es_port c)]"
  let ?w2 = "w\<lparr>calls := calls w @
       [Call_Elasticsearch [(es_host c, es_port c)], Call_indices_create (es_index c) 400]\<rparr>"
  have "sleep_accepts (pub_intvl c) ?w2"
    using assms by (simp add: sleep_accepts_def)
  from while_True_loop_body [OF this, of ?es] show ?thesis
    by (simp add: run_def Elasticsearch_init_def es_indices_create_def log_call_def)
qed

lemma run_refused:
  assumes "time_sleep (pub_intvl c) w = Inl e"
  shows "run c w = Some (Inl e, w\<lparr>calls := calls w @
       [Call_Elasticsearch [(es_host c, es_port c)], Call_indices_create (es_index c) 400]\<rparr>)"
proof -
  let ?es = "Elasticsearch [(es_host c, es_port c)]"
  let ?w2 = "w\<lparr>calls := calls w @
       [Call_Elasticsearch [(es_host c, es_port c)], Call_indices_create (es_index c) 400]\<rparr>"
  have "time_sleep (pub_intvl c) ?w2 = Inl e"
    using assms by (auto simp: time_sleep_def split: if_splits)
  from while_True_loop_body_refused [OF this, of ?es] show ?thesis
    by (simp add: run_def Elasticsearch_init_def es_indices_create_def log_call_def)
qed

lemma run_not_returns: "run c w \<noteq> Some (Inr r, w')"
  using while_True_loop_body_not_Inr
  by (auto simp: run_def Let_def split: prod.splits option.splits sum.splits)

lemma loop_body_store_independent:
  "loop_body es c (w\<lparr>index_results := f\<rparr>) =
     map_flow (\<lambda>v. v\<lparr>index_results := f\<rparr>) (loop_body es c w)"
proof (cases "sleep_accepts (pub_intvl c) w")
  case False
  then obtain e where e: "time_sleep (pub_intvl c) w = Inl e"
    using time_sleep_refuses by blast
  then have "time_sleep (pub_intvl c) (w\<lparr>index_results := f\<rparr>) = Inl e"
    by (auto simp: time_sleep_def split: if_splits)
  with e show ?thesis by (simp add: loop_body_refused)
next
  case True
  let ?w = "w\<lparr>index_results := f\<rparr>"
  have acc: "sleep_accepts (pub_intvl c) ?w"
    using True by (simp add: sleep_accepts_def)
  obtain hum temp where Pair: "read_retry_results w (count_calls is_read_retry w) = (hum, temp)"
    by (cases "read_retry_results w (count_calls is_read_retry w)") auto
  have same: "read_retry_results ?w (count_calls is_read_retry ?w) = (hum, temp)"
    using Pair by (simp add: count_calls_def)
  show ?thesis
  proof (cases "hum = None \<or> temp = None")
    case True
    from loop_body_read_failed [OF \<open>sleep_accepts (pub_intvl c) w\<close> Pair True, of es]
      loop_body_read_failed [OF acc same True, of es]
    show ?thesis by simp
  next
    case False
    then obtain h t where ht: "hum = Some h" "temp = Some t" by auto
    from loop_body_read_ok [OF \<open>sleep_accepts (pub_intvl c) w\<close>, of h t es]
      loop_body_read_ok [OF acc, of h t es] Pair same ht
    show ?thesis by (simp add: count_calls_def)
  qed
qed

lemma passes_store_independent:
  "passes n (loop_body es c) (w\<lparr>index_results := f\<rparr>) =
     map_option (\<lambda>v. v\<lparr>index_results := f\<rparr>) (passes n (loop_body es c) w)"
proof (induction n arbitrary: w)
  case 0
  show ?case by simp
next
  case (Suc n)
  show ?case
    using loop_body_store_independent [where es = es and c = c and w = w and f = f] Suc.IH
    by (cases "loop_body es c w") simp_all
qed

lemma publish_data_not_created:
  assumes "dict_get (index_results w (count_calls is_index w)) (str ''result'') (JStr (str ''''))
             \<noteq> JStr (str ''created'')"
  shows "publish_data es idx r w =
           (1, w\<lparr>calls := calls w @
                 [Call_index idx (str ''sensor_data'') (SensorReading_dict r)]\<rparr>)"
  using assms by (simp add: publish_data_def es_index_doc_def log_call_def)

section \<open>Configuration loading: the claims\<close>

text \<open>
  C1 (blank variables). The claim: whenever one of the six variables is unset or empty,
  \<^verbatim>\<open>get_config\<close> returns a nonzero code with no configuration and the process exits with
  code 1. The code at an environment where \<^verbatim>\<open>GPIO_PIN\<close> is unset and \<^verbatim>\<open>ES_PORT\<close> is
  \<^verbatim>\<open>nine\<close>: \<^verbatim>\<open>get_config\<close> returns nothing. The handler of line 100 reads the unbound
  local \<^verbatim>\<open>es_port\<close>, \<^verbatim>\<open>UnboundLocalError\<close> leaves \<^verbatim>\<open>get_config\<close> before \<^verbatim>\<open>GPIO_PIN\<close> is
  looked at, and the process ends in a traceback, not at \<^verbatim>\<open>sys.exit(1)\<close>.
\<close>

theorem blank_variable_behind_malformed_port:
  "environ_get ((example_environ(str ''ES_PORT'' \<mapsto> str ''nine''))(str ''GPIO_PIN'' := None))
       (str ''GPIO_PIN'') (str '''') = str '''' \<and>
   get_config ((example_environ(str ''ES_PORT'' \<mapsto> str ''nine''))(str ''GPIO_PIN'' := None))
     = Inl UnboundLocalError \<and>
   main ((example_environ(str ''ES_PORT'' \<mapsto> str ''nine''))(str ''GPIO_PIN'' := None))
       example_world
     = Some (Traceback UnboundLocalError)"
  by (simp add: main_def example_defs py_int_examples str_not_empty)

text \<open>
  C2 (malformed numbers). The claim: a numeric variable that is not empty and does not
  parse makes configuration loading fail and the process exit with code 1. The code at
  \<^verbatim>\<open>ES_PORT=abc\<close>, every other variable well formed: \<^verbatim>\<open>int\<close> raises \<^verbatim>\<open>ValueError\<close>, the
  handler raises \<^verbatim>\<open>UnboundLocalError\<close> while it builds its log message, line 102 is not
  reached, and the process ends in a traceback.
\<close>

theorem malformed_port_raises:
  "py_int (str ''abc'') = None \<and>
   get_config (example_environ(str ''ES_PORT'' \<mapsto> str ''abc'')) = Inl UnboundLocalError \<and>
   main (example_environ(str ''ES_PORT'' \<mapsto> str ''abc'')) example_world
     = Some (Traceback UnboundLocalError)"
  by (simp add: main_def example_defs py_int_examples str_not_empty)

text \<open>
  C6 (failure with nothing, or success with everything). The claim: on every environment
  \<^verbatim>\<open>get_config\<close> returns either a failure code with no configuration or success with the
  whole configuration. The code at \<^verbatim>\<open>ES_HOST=localhost\<close>, \<^verbatim>\<open>ES_PORT=9200/tcp\<close>: it returns
  neither, an exception leaves it.
\<close>

theorem get_config_returns_nothing_on_malformed_port:
  "get_config [str ''ES_HOST'' \<mapsto> str ''localhost'', str ''ES_PORT'' \<mapsto> str ''9200/tcp'']
     = Inl UnboundLocalError \<and>
   (\<forall>rc cfg.
      get_config [str ''ES_HOST'' \<mapsto> str ''localhost'', str ''ES_PORT'' \<mapsto> str ''9200/tcp'']
        \<noteq> Inr (rc, cfg))"
  by (simp add: example_defs py_int_examples str_not_empty)

text \<open>
  C10 (the sensor field). Whenever \<^verbatim>\<open>get_config\<close> returns a configuration, its
  \<open>sensor\<close> field is the constant \<^verbatim>\<open>SENSOR\<close>, which is \<^verbatim>\<open>Adafruit_DHT.DHT22\<close>; so two
  environments on which it succeeds give the same sensor, whatever they hold.
\<close>

theorem sensor_is_the_fixed_constant:
  assumes "get_config env = Inr (rc, Some config)"
    and "get_config env' = Inr (rc', Some config')"
  shows "sensor config = SENSOR \<and> SENSOR = DHT22 \<and> sensor config' = sensor config"
  using assms
  by (auto simp: get_config_def Let_def SENSOR_def split: option.splits if_splits)

theorem sensor_is_the_fixed_constant_witness:
  "get_config example_environ = Inr (0, Some example_config) \<and>
   get_config (example_environ(str ''GPIO_PIN'' \<mapsto> str ''17'', str ''DOC_TAG'' \<mapsto> str ''attic''))
     = Inr (0, Some (example_config\<lparr>doc_tag := str ''attic'', gpio_pin := 17\<rparr>)) \<and>
   sensor example_config = SENSOR \<and> SENSOR = DHT22 \<and>
   sensor (example_config\<lparr>doc_tag := str ''attic'', gpio_pin := 17\<rparr>) = sensor example_config"
proof -
  have a: "get_config example_environ = Inr (0, Some example_config)"
    by (rule get_config_example)
  have b: "get_config (example_environ(str ''GPIO_PIN'' \<mapsto> str ''17'',
                                       str ''DOC_TAG'' \<mapsto> str ''attic''))
     = Inr (0, Some (example_config\<lparr>doc_tag := str ''attic'', gpio_pin := 17\<rparr>))"
    by (simp add: example_defs py_int_examples str_not_empty)
  from sensor_is_the_fixed_constant [OF a b] a b show ?thesis by simp
qed

section \<open>Reading, publishing and the loop: the claims\<close>

text \<open>
  C9 (\<^verbatim>\<open>read_sensor\<close>). The code returned is 0 exactly when the driver gave both a
  humidity and a temperature; then the tuple holds the driver's two values and the time
  read from the clock after the driver returned. Otherwise the code is 1.
\<close>

theorem read_sensor_success_iff:
  assumes "read_retry_results w (count_calls is_read_retry w) = (hum, temp)"
  shows "(fst (fst (read_sensor s p w)) = 0 \<longleftrightarrow> hum \<noteq> None \<and> temp \<noteq> None) \<and>
         (\<forall>h t. hum = Some h \<and> temp = Some t \<longrightarrow>
            fst (read_sensor s p w) = (0, h, t, now_results w (count_calls is_now w))) \<and>
         (hum = None \<or> temp = None \<longrightarrow> fst (fst (read_sensor s p w)) = 1)"
proof (cases "hum = None \<or> temp = None")
  case True
  from read_sensor_failed [OF assms True, of s p] True show ?thesis by auto
next
  case False
  then obtain h t where ht: "hum = Some h" "temp = Some t" by auto
  with assms have "read_retry_results w (count_calls is_read_retry w) = (Some h, Some t)"
    by simp
  from read_sensor_ok [OF this, of s p] ht show ?thesis by simp
qed

theorem read_sensor_success_iff_witness:
  "read_retry_results example_world (count_calls is_read_retry example_world)
     = (Some 55.2, Some 21.3) \<and>
   fst (fst (read_sensor 22 4 example_world)) = 0 \<and>
   fst (read_sensor 22 4 example_world) = (0, 55.2, 21.3, 0)"
proof -
  have a: "read_retry_results example_world (count_calls is_read_retry example_world)
     = (Some 55.2, Some 21.3)"
    by (simp add: example_world_def)
  have b: "now_results example_world (count_calls is_now example_world) = 0"
    by (simp add: example_world_def count_calls_def)
  from read_sensor_success_iff [OF a, of 22 4] a b show ?thesis by simp
qed

text \<open>
  C3 (the document). In a pass of the loop in which the wait is over and \<^verbatim>\<open>read_sensor\<close>
  returns code 0 with humidity \<open>h\<close>, temperature \<open>t\<close> and time \<open>ts\<close>, the program builds
  one reading from them and the configured tag, and sends the store one request: index
  \<^verbatim>\<open>es_index\<close>, type \<^verbatim>\<open>sensor_data\<close>, and as body the dictionary with exactly the four keys
  \<^verbatim>\<open>hum_rh\<close>, \<^verbatim>\<open>temp_c\<close>, \<^verbatim>\<open>timestamp\<close>, \<^verbatim>\<open>location\<close> bound to \<open>h\<close>, \<open>t\<close>, \<open>ts\<close> and the tag.
\<close>

theorem successful_read_hands_reading_to_store:
  assumes "time_sleep (pub_intvl config) w = Inr w1"
    and "fst (read_sensor (sensor config) (gpio_pin config) w1) = (0, h, t, ts)"
  shows "\<exists>w'. loop_body es config w = Fallthrough w' \<and>
           calls w' = calls w @
             [Call_sleep (pub_intvl config),
              Call_read_retry (sensor config) (gpio_pin config),
              Call_now,
              Call_SensorReading h t ts (doc_tag config),
              Call_index (es_index config) (str ''sensor_data'')
                [str ''hum_rh'' \<mapsto> PyFloat h, str ''temp_c'' \<mapsto> PyFloat t,
                 str ''timestamp'' \<mapsto> PyDatetime ts,
                 str ''location'' \<mapsto> PyStr (doc_tag config)]]"
proof -
  from time_sleep_Inr [OF assms(1)]
  have acc: "sleep_accepts (pub_intvl config) w"
    and w1: "w1 = w\<lparr>calls := calls w @ [Call_sleep (pub_intvl config)]\<rparr>"
    by simp_all
  obtain w2 where "read_sensor (sensor config) (gpio_pin config) w1 = ((0, h, t, ts), w2)"
    using assms(2) by (cases "read_sensor (sensor config) (gpio_pin config) w1") simp
  from read_sensor_cases [OF this]
  have ok: "read_retry_results w (count_calls is_read_retry w) = (Some h, Some t)"
    and ts: "ts = now_results w (count_calls is_now w)"
    by (simp_all add: w1 after_sleep)
  from loop_body_read_ok [OF acc ok, of es] ts show ?thesis by simp
qed

theorem successful_read_hands_reading_to_store_witness:
  "time_sleep 60 example_world = Inr (example_world\<lparr>calls := [Call_sleep 60]\<rparr>) \<and>
   fst (read_sensor 22 4 (example_world\<lparr>calls := [Call_sleep 60]\<rparr>)) = (0, 55.2, 21.3, 0) \<and>
   (\<exists>w'. loop_body example_client example_config example_world = Fallthrough w' \<and>
      calls w' =
        [Call_sleep 60, Call_read_retry 22 4, Call_now,
         Call_SensorReading 55.2 21.3 0 (str ''garage''),
         Call_index (str ''pitemp'') (str ''sensor_data'')
           [str ''hum_rh'' \<mapsto> PyFloat 55.2, str ''temp_c'' \<mapsto> PyFloat 21.3,
            str ''location'' \<mapsto> PyStr (str ''garage''),
            str ''timestamp'' \<mapsto> PyDatetime 0]])"
proof -
  have a: "time_sleep (pub_intvl example_config) example_world
             = Inr (example_world\<lparr>calls := [Call_sleep 60]\<rparr>)"
    by (simp add: example_config_def example_world_def time_sleep_def log_call_def)
  have b: "fst (read_sensor (sensor example_config) (gpio_pin example_config)
                  (example_world\<lparr>calls := [Call_sleep 60]\<rparr>))
             = (0, 55.2, 21.3, 0)"
    by (simp add: example_config_def example_world_def read_sensor_def
        Adafruit_DHT_read_retry_def datetime_now_def count_calls_def log_call_def)
  have twist:
    "[str ''hum_rh'' \<mapsto> PyFloat 55.2, str ''temp_c'' \<mapsto> PyFloat 21.3,
      str ''timestamp'' \<mapsto> PyDatetime (0::nat), str ''location'' \<mapsto> PyStr (str ''garage'')]
     = [str ''hum_rh'' \<mapsto> PyFloat 55.2, str ''temp_c'' \<mapsto> PyFloat 21.3,
        str ''location'' \<mapsto> PyStr (str ''garage''), str ''timestamp'' \<mapsto> PyDatetime 0]"
    by (rule ext) (simp add: str_eq_iff)
  have c: "calls example_world = []"
    by (simp add: example_world_def)
  from successful_read_hands_reading_to_store [OF a b, of example_client] a b twist c
  show ?thesis by (simp add: example_config_def)
qed

text \<open>
  C4 (a failed read). In a pass in which the wait is over and \<^verbatim>\<open>read_sensor\<close> returns a
  nonzero code, the program calls nothing after the read: no reading is built and no
  request goes to the store. The pass ends at \<^verbatim>\<open>continue\<close>, and the next pass begins with
  the wait.
\<close>

theorem failed_read_skips_publish:
  assumes "time_sleep (pub_intvl config) w = Inr w1"
    and "fst (fst (read_sensor (sensor config) (gpio_pin config) w1)) \<noteq> 0"
  shows "\<exists>w'. loop_body es config w = Continue w' \<and>
           calls w' = calls w @
             [Call_sleep (pub_intvl config),
              Call_read_retry (sensor config) (gpio_pin config),
              Call_now] \<and>
           filter is_SensorReading (calls w') = filter is_SensorReading (calls w) \<and>
           filter is_index (calls w') = filter is_index (calls w) \<and>
           (\<exists>w'' rest. passes (Suc (Suc 0)) (loop_body es config) w = Some w'' \<and>
              calls w'' = calls w' @ Call_sleep (pub_intvl config) # rest)"
proof -
  from time_sleep_Inr [OF assms(1)]
  have acc: "sleep_accepts (pub_intvl config) w"
    and w1: "w1 = w\<lparr>calls := calls w @ [Call_sleep (pub_intvl config)]\<rparr>"
    by simp_all
  obtain rc h t ts w2
    where rs: "read_sensor (sensor config) (gpio_pin config) w1 = ((rc, h, t, ts), w2)"
    by (metis prod.exhaust)
  with assms(2) have "rc \<noteq> 0" by simp
  with read_sensor_cases [OF rs]
  have "fst (read_retry_results w (count_calls is_read_retry w)) = None \<or>
        snd (read_retry_results w (count_calls is_read_retry w)) = None"
    by (auto simp: w1 after_sleep)
  then obtain hum temp
    where dr: "read_retry_results w (count_calls is_read_retry w) = (hum, temp)"
      and none: "hum = None \<or> temp = None"
    by (cases "read_retry_results w (count_calls is_read_retry w)") auto
  define w' where "w' = w\<lparr>calls := calls w @
       [Call_sleep (pub_intvl config), Call_read_retry (sensor config) (gpio_pin config),
        Call_now]\<rparr>"
  have body: "loop_body es config w = Continue w'"
    unfolding w'_def by (rule loop_body_read_failed [OF acc dr none])
  have acc': "sleep_accepts (pub_intvl config) w'"
    using acc by (simp add: w'_def sleep_accepts_def)
  obtain w'' rest where nxt: "passes (Suc 0) (loop_body es config) w' = Some w''"
    and calls'': "calls w'' = calls w' @
       [Call_sleep (pub_intvl config), Call_read_retry (sensor config) (gpio_pin config),
        Call_now] @ rest"
    using passes_one [OF acc', of es] by blast
  have "passes (Suc (Suc 0)) (loop_body es config) w = Some w''"
    using body nxt by simp
  moreover have "calls w' = calls w @
       [Call_sleep (pub_intvl config), Call_read_retry (sensor config) (gpio_pin config),
        Call_now]"
    by (simp add: w'_def)
  ultimately show ?thesis using body calls'' by auto
qed

theorem failed_read_skips_publish_witness:
  "time_sleep 60 failing_world = Inr (failing_world\<lparr>calls := [Call_sleep 60]\<rparr>) \<and>
   fst (fst (read_sensor 22 4 (failing_world\<lparr>calls := [Call_sleep 60]\<rparr>))) = 1 \<and>
   (\<exists>w'. loop_body example_client example_config failing_world = Continue w' \<and>
      calls w' = [Call_sleep 60, Call_read_retry 22 4, Call_now] \<and>
      filter is_index (calls w') = [])"
proof -
  have a: "time_sleep (pub_intvl example_config) failing_world
             = Inr (failing_world\<lparr>calls := [Call_sleep 60]\<rparr>)"
    by (simp add: example_config_def failing_world_def time_sleep_def log_call_def)
  have b: "fst (fst (read_sensor (sensor example_config) (gpio_pin example_config)
                  (failing_world\<lparr>calls := [Call_sleep 60]\<rparr>))) = 1"
    by (simp add: example_config_def failing_world_def read_sensor_def
        Adafruit_DHT_read_retry_def datetime_now_def count_calls_def log_call_def)
  then have b': "fst (fst (read_sensor (sensor example_config) (gpio_pin example_config)
                  (failing_world\<lparr>calls := [Call_sleep 60]\<rparr>))) \<noteq> 0"
    by simp
  have c: "calls failing_world = []" by (simp add: failing_world_def)
  from failed_read_skips_publish [OF a b', of example_client] obtain w'
    where "loop_body example_client example_config failing_world = Continue w'"
      and "calls w' = [Call_sleep 60, Call_read_retry 22 4, Call_now]"
      and "filter is_index (calls w') = []"
    using c by (auto simp: example_config_def)
  then show ?thesis using a b by (auto simp: example_config_def)
qed

text \<open>
  C5 (a failed publish). Take a pass in which the wait is over, \<^verbatim>\<open>read_sensor\<close> returns
  code 0, the reading is built, and the store's response to the request of this pass
  has no \<^verbatim>\<open>result\<close> field or one that is not the string \<^verbatim>\<open>created\<close>. Then
  \<^verbatim>\<open>publish_data\<close> returns 1, as it does for every index and reading on such a response.
  The pass ends all the same at its last statement, having sent that one request and no
  other; the next pass follows and begins with the wait and the read. Nothing of the
  failure is kept: whatever the store answers, the passes of the loop are the same.
\<close>

theorem failed_publish_is_ignored:
  assumes "time_sleep (pub_intvl config) w = Inr w1"
    and "read_sensor (sensor config) (gpio_pin config) w1 = ((0, h, t, ts), w2)"
    and "SensorReading_init h t ts (doc_tag config) w2 = (sensor_data, w3)"
    and "dict_get (index_results w3 (count_calls is_index w3)) (str ''result'') (JStr (str ''''))
           \<noteq> JStr (str ''created'')"
  shows "\<exists>w4.
           publish_data es (es_index config) sensor_data w3 = (1, w4) \<and>
           (\<forall>es' idx r. fst (publish_data es' idx r w3) = 1) \<and>
           loop_body es config w = Fallthrough w4 \<and>
           calls w4 = calls w @
             [Call_sleep (pub_intvl config),
              Call_read_retry (sensor config) (gpio_pin config),
              Call_now,
              Call_SensorReading h t ts (doc_tag config),
              Call_index (es_index config) (str ''sensor_data'')
                (SensorReading_dict sensor_data)] \<and>
           (\<exists>w5 rest. passes (Suc (Suc 0)) (loop_body es config) w = Some w5 \<and>
              calls w5 = calls w4 @
                Call_sleep (pub_intvl config) #
                Call_read_retry (sensor config) (gpio_pin config) # Call_now # rest) \<and>
           (\<forall>f n. passes n (loop_body es config) (w\<lparr>index_results := f\<rparr>)
              = map_option (\<lambda>v. v\<lparr>index_results := f\<rparr>) (passes n (loop_body es config) w))"
proof -
  from time_sleep_Inr [OF assms(1)]
  have acc: "sleep_accepts (pub_intvl config) w"
    and w1: "w1 = w\<lparr>calls := calls w @ [Call_sleep (pub_intvl config)]\<rparr>"
    by simp_all
  from read_sensor_cases [OF assms(2)]
  have w2: "w2 = w1\<lparr>calls := calls w1 @
              [Call_read_retry (sensor config) (gpio_pin config), Call_now]\<rparr>"
    by simp
  from assms(3)
  have sd: "sensor_data = \<lparr>hum_rh = h, temp_c = t, timestamp = Some ts,
                            location = doc_tag config\<rparr>"
    and w3: "w3 = w2\<lparr>calls := calls w2 @ [Call_SensorReading h t ts (doc_tag config)]\<rparr>"
    by (simp_all add: SensorReading_init_def log_call_def)
  define w4 where "w4 = w3\<lparr>calls := calls w3 @
       [Call_index (es_index config) (str ''sensor_data'') (SensorReading_dict sensor_data)]\<rparr>"
  have pub: "publish_data es (es_index config) sensor_data w3 = (1, w4)"
    unfolding w4_def by (rule publish_data_not_created [OF assms(4)])
  have any: "\<forall>es' idx r. fst (publish_data es' idx r w3) = 1"
    using publish_data_not_created [OF assms(4)] by simp
  have body: "loop_body es config w = Fallthrough w4"
    using assms(1,2,3) pub by (simp add: loop_body_def)
  have calls4: "calls w4 = calls w @
             [Call_sleep (pub_intvl config),
              Call_read_retry (sensor config) (gpio_pin config),
              Call_now,
              Call_SensorReading h t ts (doc_tag config),
              Call_index (es_index config) (str ''sensor_data'')
                (SensorReading_dict sensor_data)]"
    by (simp add: w4_def w3 w2 w1)
  have acc4: "sleep_accepts (pub_intvl config) w4"
    using acc by (simp add: w4_def w3 w2 w1 sleep_accepts_def)
  obtain w5 rest where nxt: "passes (Suc 0) (loop_body es config) w4 = Some w5"
    and calls5: "calls w5 = calls w4 @
       [Call_sleep (pub_intvl config), Call_read_retry (sensor config) (gpio_pin config),
        Call_now] @ rest"
    using passes_one [OF acc4, of es] by blast
  have "passes (Suc (Suc 0)) (loop_body es config) w = Some w5"
    using body nxt by simp
  with calls5 have next_pass:
    "\<exists>w5 rest. passes (Suc (Suc 0)) (loop_body es config) w = Some w5 \<and>
        calls w5 = calls w4 @
          Call_sleep (pub_intvl config) #
          Call_read_retry (sensor config) (gpio_pin config) # Call_now # rest"
    by auto
  from pub any body calls4 next_pass show ?thesis
    by (auto simp: passes_store_independent)
qed

theorem failed_publish_is_ignored_witness:
  "time_sleep 60 rejecting_world = Inr (rejecting_world\<lparr>calls := [Call_sleep 60]\<rparr>) \<and>
   read_sensor 22 4 (rejecting_world\<lparr>calls := [Call_sleep 60]\<rparr>)
     = ((0, 55.2, 21.3, 0),
        rejecting_world\<lparr>calls := [Call_sleep 60, Call_read_retry 22 4, Call_now]\<rparr>) \<and>
   dict_get (index_results rejecting_world 0) (str ''result'') (JStr (str ''''))
     = JStr (str ''noop'') \<and>
   (\<exists>w4. publish_data example_client (str ''pitemp'')
            \<lparr>hum_rh = 55.2, temp_c = 21.3, timestamp = Some 0, location = str ''garage''\<rparr>
            (rejecting_world\<lparr>calls := [Call_sleep 60, Call_read_retry 22 4, Call_now,
                                         Call_SensorReading 55.2 21.3 0 (str ''garage'')]\<rparr>)
          = (1, w4) \<and>
      loop_body example_client example_config rejecting_world = Fallthrough w4 \<and>
      length (filter is_index (calls w4)) = 1 \<and>
      (\<exists>w5 rest. passes (Suc (Suc 0)) (loop_body example_client example_config) rejecting_world
           = Some w5 \<and>
         calls w5 = calls w4 @ Call_sleep 60 # Call_read_retry 22 4 # Call_now # rest))"
proof -
  let ?w1 = "rejecting_world\<lparr>calls := [Call_sleep 60]\<rparr>"
  let ?w2 = "rejecting_world\<lparr>calls := [Call_sleep 60, Call_read_retry 22 4, Call_now]\<rparr>"
  let ?w3 = "rejecting_world\<lparr>calls := [Call_sleep 60, Call_read_retry 22 4, Call_now,
                                         Call_SensorReading 55.2 21.3 0 (str ''garage'')]\<rparr>"
  let ?r = "\<lparr>hum_rh = 55.2, temp_c = 21.3, timestamp = Some (0::nat),
             location = str ''garage''\<rparr>"
  have a: "time_sleep (pub_intvl example_config) rejecting_world = Inr ?w1"
    by (simp add: example_config_def rejecting_world_def time_sleep_def log_call_def)
  have b: "read_sensor (sensor example_config) (gpio_pin example_config) ?w1
             = ((0, 55.2, 21.3, 0), ?w2)"
    by (simp add: example_config_def rejecting_world_def read_sensor_def
        Adafruit_DHT_read_retry_def datetime_now_def count_calls_def log_call_def)
  have c: "SensorReading_init 55.2 21.3 0 (doc_tag example_config) ?w2 = (?r, ?w3)"
    by (simp add: example_config_def SensorReading_init_def log_call_def)
  have d0: "dict_get (index_results rejecting_world 0) (str ''result'') (JStr (str ''''))
              = JStr (str ''noop'')"
    by (simp add: rejecting_world_def dict_get_def)
  have d: "dict_get (index_results ?w3 (count_calls is_index ?w3)) (str ''result'')
             (JStr (str '''')) \<noteq> JStr (str ''created'')"
    by (simp add: rejecting_world_def dict_get_def count_calls_def str_eq_iff)
  have e: "calls rejecting_world = []"
    by (simp add: rejecting_world_def)
  from failed_publish_is_ignored [OF a b c d, of example_client] obtain w4 w5 rest
    where "publish_data example_client (es_index example_config) ?r ?w3 = (1, w4)"
      and "loop_body example_client example_config rejecting_world = Fallthrough w4"
      and "calls w4 = calls rejecting_world @
             [Call_sleep (pub_intvl example_config),
              Call_read_retry (sensor example_config) (gpio_pin example_config),
              Call_now,
              Call_SensorReading 55.2 21.3 0 (doc_tag example_config),
              Call_index (es_index example_config) (str ''sensor_data'')
                (SensorReading_dict ?r)]"
      and "passes (Suc (Suc 0)) (loop_body example_client example_config) rejecting_world
             = Some w5"
      and "calls w5 = calls w4 @
             Call_sleep (pub_intvl example_config) #
             Call_read_retry (sensor example_config) (gpio_pin example_config) #
             Call_now # rest"
    by blast
  then have "publish_data example_client (str ''pitemp'') ?r ?w3 = (1, w4) \<and>
      loop_body example_client example_config rejecting_world = Fallthrough w4 \<and>
      length (filter is_index (calls w4)) = 1 \<and>
      (\<exists>w5 rest. passes (Suc (Suc 0)) (loop_body example_client example_config) rejecting_world
           = Some w5 \<and>
         calls w5 = calls w4 @ Call_sleep 60 # Call_read_retry 22 4 # Call_now # rest)"
    using e by (auto simp: example_config_def)
  then show ?thesis using a b d0 by (auto simp: example_config_def)
qed

text \<open>
  C7 (the order of a pass). Take any pass of the loop, the one that begins in the world
  \<open>wn\<close> reached after \<open>n\<close> passes. Its first call is \<^verbatim>\<open>time.sleep\<close> with the configured
  interval. When \<^verbatim>\<open>time.sleep\<close> refuses the interval the pass calls nothing and the loop
  is left. Otherwise the wait is logged first, then the driver is read with the
  configured sensor and pin and the clock is read; and then, exactly when the code of
  this read is 0, the reading is built from the values of this read and sent to the
  store in one request, after which the pass is over; when the code is not 0 the pass
  is over right after the read.
\<close>

theorem pass_is_wait_read_publish:
  assumes "passes n (loop_body es config) w = Some wn"
  shows "(case time_sleep (pub_intvl config) wn of
            Inl e \<Rightarrow>
              loop_body es config wn = Raise e wn \<and>
              passes (Suc n) (loop_body es config) w = None
          | Inr w1 \<Rightarrow>
              (case read_sensor (sensor config) (gpio_pin config) w1 of
                 ((rc, h, t, ts), w2) \<Rightarrow>
                   calls w1 = calls wn @ [Call_sleep (pub_intvl config)] \<and>
                   calls w2 = calls w1 @
                     [Call_read_retry (sensor config) (gpio_pin config), Call_now] \<and>
                   (if rc = 0
                    then \<exists>w4. loop_body es config wn = Fallthrough w4 \<and>
                           passes (Suc n) (loop_body es config) w = Some w4 \<and>
                           calls w4 = calls w2 @
                             [Call_SensorReading h t ts (doc_tag config),
                              Call_index (es_index config) (str ''sensor_data'')
                                [str ''hum_rh'' \<mapsto> PyFloat h, str ''temp_c'' \<mapsto> PyFloat t,
                                 str ''timestamp'' \<mapsto> PyDatetime ts,
                                 str ''location'' \<mapsto> PyStr (doc_tag config)]]
                    else loop_body es config wn = Continue w2 \<and>
                         passes (Suc n) (loop_body es config) w = Some w2)))"
proof (cases "time_sleep (pub_intvl config) wn")
  case (Inl e)
  then have "loop_body es config wn = Raise e wn"
    by (rule loop_body_refused)
  moreover have "passes (Suc n) (loop_body es config) w
      = passes (Suc 0) (loop_body es config) wn"
    using assms by (simp add: passes_Suc_right [of n] del: passes.simps(2))
  ultimately have "loop_body es config wn = Raise e wn \<and>
      passes (Suc n) (loop_body es config) w = None"
    by simp
  then show ?thesis using Inl by simp
next
  case (Inr w1)
  from time_sleep_Inr [OF Inr]
  have acc: "sleep_accepts (pub_intvl config) wn"
    and w1: "w1 = wn\<lparr>calls := calls wn @ [Call_sleep (pub_intvl config)]\<rparr>"
    by simp_all
  obtain rc h t ts w2
    where rs: "read_sensor (sensor config) (gpio_pin config) w1 = ((rc, h, t, ts), w2)"
    by (metis prod.exhaust)
  from read_sensor_cases [OF rs]
  have w2: "w2 = w1\<lparr>calls := calls w1 @
              [Call_read_retry (sensor config) (gpio_pin config), Call_now]\<rparr>"
    and ts: "ts = now_results wn (count_calls is_now wn)"
    and alt: "rc = 0 \<and> read_retry_results wn (count_calls is_read_retry wn) = (Some h, Some t) \<or>
              rc = 1 \<and> (fst (read_retry_results wn (count_calls is_read_retry wn)) = None \<or>
                        snd (read_retry_results wn (count_calls is_read_retry wn)) = None)"
    by (auto simp: w1 after_sleep)
  have step: "passes (Suc n) (loop_body es config) w = passes (Suc 0) (loop_body es config) wn"
    using assms by (simp add: passes_Suc_right [of n] del: passes.simps(2))
  show ?thesis
  proof (cases "rc = 0")
    case True
    with alt have ok: "read_retry_results wn (count_calls is_read_retry wn) = (Some h, Some t)"
      by simp
    from loop_body_read_ok [OF acc ok, of es] show ?thesis
      using Inr rs True step by (simp add: w2 w1 ts)
  next
    case False
    with alt obtain hum temp
      where dr: "read_retry_results wn (count_calls is_read_retry wn) = (hum, temp)"
        and none: "hum = None \<or> temp = None"
      by (cases "read_retry_results wn (count_calls is_read_retry wn)") auto
    from loop_body_read_failed [OF acc dr none, of es] show ?thesis
      using Inr rs False step by (simp add: w2 w1)
  qed
qed

theorem pass_is_wait_read_publish_witness:
  "(\<exists>wa. passes (Suc 0) (loop_body example_client example_config) recovering_world = Some wa \<and>
      loop_body example_client example_config recovering_world = Continue wa \<and>
      calls wa = [Call_sleep 60, Call_read_retry 22 4, Call_now] \<and>
      (\<exists>wb. passes (Suc (Suc 0)) (loop_body example_client example_config) recovering_world
               = Some wb \<and>
         loop_body example_client example_config wa = Fallthrough wb \<and>
         calls wb =
           [Call_sleep 60, Call_read_retry 22 4, Call_now,
            Call_sleep 60, Call_read_retry 22 4, Call_now,
            Call_SensorReading 55.2 21.3 1 (str ''garage''),
            Call_index (str ''pitemp'') (str ''sensor_data'')
              [str ''hum_rh'' \<mapsto> PyFloat 55.2, str ''temp_c'' \<mapsto> PyFloat 21.3,
               str ''timestamp'' \<mapsto> PyDatetime 1,
               str ''location'' \<mapsto> PyStr (str ''garage'')]]))"
proof -
  let ?body = "loop_body example_client example_config"
  let ?wa = "recovering_world\<lparr>calls := [Call_sleep 60, Call_read_retry 22 4, Call_now]\<rparr>"
  have p0: "passes 0 ?body recovering_world = Some recovering_world"
    by simp
  have s0: "time_sleep (pub_intvl example_config) recovering_world
              = Inr (recovering_world\<lparr>calls := [Call_sleep 60]\<rparr>)"
    by (simp add: example_config_def recovering_world_def time_sleep_def log_call_def)
  have r0: "read_sensor (sensor example_config) (gpio_pin example_config)
              (recovering_world\<lparr>calls := [Call_sleep 60]\<rparr>) = ((1, 0, 0, 0), ?wa)"
    by (simp add: example_config_def recovering_world_def read_sensor_def
        Adafruit_DHT_read_retry_def datetime_now_def count_calls_def log_call_def)
  from pass_is_wait_read_publish [OF p0] s0 r0
  have first: "?body recovering_world = Continue ?wa \<and> passes (Suc 0) ?body recovering_world = Some ?wa"
    by simp
  then have p1: "passes (Suc 0) ?body recovering_world = Some ?wa"
    by simp
  have s1: "time_sleep (pub_intvl example_config) ?wa
              = Inr (recovering_world\<lparr>calls := [Call_sleep 60, Call_read_retry 22 4, Call_now,
                                                  Call_sleep 60]\<rparr>)"
    by (simp add: example_config_def recovering_world_def time_sleep_def log_call_def)
  have r1: "read_sensor (sensor example_config) (gpio_pin example_config)
              (recovering_world\<lparr>calls := [Call_sleep 60, Call_read_retry 22 4, Call_now,
                                           Call_sleep 60]\<rparr>)
              = ((0, 55.2, 21.3, 1),
                 recovering_world\<lparr>calls := [Call_sleep 60, Call_read_retry 22 4, Call_now,
                                              Call_sleep 60, Call_read_retry 22 4, Call_now]\<rparr>)"
    by (simp add: example_config_def recovering_world_def read_sensor_def
        Adafruit_DHT_read_retry_def datetime_now_def count_calls_def log_call_def)
  from pass_is_wait_read_publish [OF p1] s1 r1
  have second: "\<exists>wb. ?body ?wa = Fallthrough wb \<and>
       passes (Suc (Suc 0)) ?body recovering_world = Some wb \<and>
       calls wb =
           [Call_sleep 60, Call_read_retry 22 4, Call_now,
            Call_sleep 60, Call_read_retry 22 4, Call_now,
            Call_SensorReading 55.2 21.3 1 (str ''garage''),
            Call_index (str ''pitemp'') (str ''sensor_data'')
              [str ''hum_rh'' \<mapsto> PyFloat 55.2, str ''temp_c'' \<mapsto> PyFloat 21.3,
               str ''timestamp'' \<mapsto> PyDatetime 1,
               str ''location'' \<mapsto> PyStr (str ''garage'')]]"
    by (simp add: example_config_def)
  have "calls ?wa = [Call_sleep 60, Call_read_retry 22 4, Call_now]"
    by simp
  with first second show ?thesis by blast
qed

text \<open>
  C8 (no way out of the loop but a refused wait). The claim, that \<^verbatim>\<open>run\<close> never
  terminates for any configuration, fails for the configurations whose interval
  \<^verbatim>\<open>time.sleep\<close> refuses: \<^verbatim>\<open>get_config\<close> accepts \<^verbatim>\<open>PUB_INTVL=-5\<close>, and \<^verbatim>\<open>run\<close> then ends at
  the first wait, \<^verbatim>\<open>ValueError\<close> leaving the loop before any pass is done.
\<close>

theorem run_ends_on_negative_interval:
  "get_config (example_environ(str ''PUB_INTVL'' \<mapsto> str ''-5''))
     = Inr (0, Some (example_config\<lparr>pub_intvl := - 5\<rparr>)) \<and>
   run (example_config\<lparr>pub_intvl := - 5\<rparr>) example_world
     = Some (Inl ValueError,
             example_world\<lparr>calls := [Call_Elasticsearch [(str ''localhost'', 9200)],
                                       Call_indices_create (str ''pitemp'') 400]\<rparr>) \<and>
   main (example_environ(str ''PUB_INTVL'' \<mapsto> str ''-5'')) example_world
     = Some (Traceback ValueError)"
proof -
  have cfg: "get_config (example_environ(str ''PUB_INTVL'' \<mapsto> str ''-5''))
     = Inr (0, Some (example_config\<lparr>pub_intvl := - 5\<rparr>))"
    by (simp add: example_defs py_int_examples str_not_empty)
  have "time_sleep (pub_intvl (example_config\<lparr>pub_intvl := - 5\<rparr>)) example_world
          = Inl ValueError"
    by (simp add: time_sleep_def)
  from run_refused [OF this]
  have r: "run (example_config\<lparr>pub_intvl := - 5\<rparr>) example_world
     = Some (Inl ValueError,
             example_world\<lparr>calls := [Call_Elasticsearch [(str ''localhost'', 9200)],
                                       Call_indices_create (str ''pitemp'') 400]\<rparr>)"
    by (simp add: example_config_def example_world_def)
  from cfg r show ?thesis by (simp add: main_def)
qed

text \<open>
  C8 as amended. For every configuration whose interval \<^verbatim>\<open>time.sleep\<close> accepts, and every
  world: each of the passes is completed and followed by another, whatever the driver
  and the store answer, so the loop has no value, and neither has \<^verbatim>\<open>run\<close>. For
  every configuration whose interval \<^verbatim>\<open>time.sleep\<close> refuses, \<^verbatim>\<open>run\<close> ends with the
  exception of the first wait. For every configuration, no pass ends at a \<^verbatim>\<open>break\<close> and
  the \<^verbatim>\<open>return 0\<close> after the loop is never reached.
\<close>

theorem run_ends_only_by_refused_sleep:
  "(sleep_accepts (pub_intvl config) w \<longrightarrow>
      run config w = None \<and>
      while_True (loop_body es config) w = None \<and>
      (\<forall>n. passes n (loop_body es config) w \<noteq> None)) \<and>
   (\<not> sleep_accepts (pub_intvl config) w \<longrightarrow>
      (\<exists>e w'. time_sleep (pub_intvl config) w = Inl e \<and> run config w = Some (Inl e, w') \<and>
         while_True (loop_body es config) w = Some (Inl (e, w)))) \<and>
   (\<forall>r w'. run config w \<noteq> Some (Inr r, w')) \<and>
   (\<forall>w'. loop_body es config w \<noteq> Break w')"
proof -
  have accepted: "run config w = None \<and> while_True (loop_body es config) w = None \<and>
      (\<forall>n. passes n (loop_body es config) w \<noteq> None)"
    if acc: "sleep_accepts (pub_intvl config) w"
  proof -
    have loop: "while_True (loop_body es config) w = None"
      by (rule while_True_loop_body [OF acc])
    then have "\<forall>n. passes n (loop_body es config) w \<noteq> None"
      using while_True_None_iff [of "loop_body es config" w] by blast
    with loop run_None [OF acc] show ?thesis by blast
  qed
  have refused: "\<exists>e w'. time_sleep (pub_intvl config) w = Inl e \<and>
        run config w = Some (Inl e, w') \<and>
        while_True (loop_body es config) w = Some (Inl (e, w))"
    if "\<not> sleep_accepts (pub_intvl config) w"
  proof -
    from time_sleep_refuses [OF that] obtain e
      where e: "time_sleep (pub_intvl config) w = Inl e" ..
    from run_refused [OF e] while_True_loop_body_refused [OF e, of es] e
    show ?thesis by blast
  qed
  from accepted refused show ?thesis
    by (simp add: run_not_returns loop_body_never_breaks)
qed

theorem run_ends_only_by_refused_sleep_witness:
  "sleep_accepts (pub_intvl example_config) example_world \<and>
   run example_config example_world = None \<and>
   while_True (loop_body example_client example_config) example_world = None \<and>
   \<not> sleep_accepts (pub_intvl (example_config\<lparr>pub_intvl := - 5\<rparr>)) example_world \<and>
   while_True (loop_body example_client (example_config\<lparr>pub_intvl := - 5\<rparr>)) example_world
     = Some (Inl (ValueError, example_world))"
proof -
  have a: "sleep_accepts (pub_intvl example_config) example_world"
    by (simp add: sleep_accepts_def example_config_def example_world_def)
  have b: "\<not> sleep_accepts (pub_intvl (example_config\<lparr>pub_intvl := - 5\<rparr>)) example_world"
    by (simp add: sleep_accepts_def)
  have c: "time_sleep (pub_intvl (example_config\<lparr>pub_intvl := - 5\<rparr>)) example_world
             = Inl ValueError"
    by (simp add: time_sleep_def)
  from run_ends_only_by_refused_sleep [of example_config example_world example_client]
    run_ends_only_by_refused_sleep
      [of "example_config\<lparr>pub_intvl := - 5\<rparr>" example_world example_client]
    a b c
  show ?thesis by auto
qed

section \<open>Further properties of the program\<close>

text \<open>
  X1 (blank variables, away from line 100). On every environment on which the handler of
  line 100 is not reached, a required variable that is unset or empty makes
  \<^verbatim>\<open>get_config\<close> return \<^verbatim>\<open>1, None\<close> and the process end at \<^verbatim>\<open>sys.exit(1)\<close>. This holds
  for \<^verbatim>\<open>PUB_INTVL\<close> too: the test of line 115 looks at \<^verbatim>\<open>doc_tag\<close> and lets the empty
  string through, \<^verbatim>\<open>int\<close> refuses it, and the handler of line 120 returns.
\<close>

theorem blank_required_variable_returns_failure:
  assumes "v \<in> set required_vars" and "environ_get env v (str '''') = str ''''"
    and "\<not> port_handler_reached env"
  shows "get_config env = Inr (1, None) \<and> main env w = Some (SystemExit 1)"
  using get_config_blank [OF assms] by (simp add: main_of_failure)

theorem blank_required_variable_returns_failure_witness:
  "str ''PUB_INTVL'' \<in> set required_vars \<and>
   environ_get (example_environ(str ''PUB_INTVL'' := None)) (str ''PUB_INTVL'') (str '''')
     = str '''' \<and>
   get_config (example_environ(str ''PUB_INTVL'' := None)) = Inr (1, None) \<and>
   main (example_environ(str ''PUB_INTVL'' := None)) example_world = Some (SystemExit 1)"
proof -
  have a: "str ''PUB_INTVL'' \<in> set required_vars"
    by (simp add: required_vars_def)
  have b: "environ_get (example_environ(str ''PUB_INTVL'' := None)) (str ''PUB_INTVL'')
             (str '''') = str ''''"
    by (simp add: environ_get_def)
  have c: "\<not> port_handler_reached (example_environ(str ''PUB_INTVL'' := None))"
    by (simp add: port_handler_reached_def example_defs py_int_examples str_not_empty)
  from blank_required_variable_returns_failure [OF a b c, of example_world] a b
  show ?thesis by simp
qed

text \<open>
  X2 (malformed interval or pin). On every environment on which the handler of line 100
  is not reached, a \<^verbatim>\<open>PUB_INTVL\<close> or \<^verbatim>\<open>GPIO_PIN\<close> that \<^verbatim>\<open>int\<close> refuses makes \<^verbatim>\<open>get_config\<close>
  return \<^verbatim>\<open>1, None\<close> and the process end at \<^verbatim>\<open>sys.exit(1)\<close>.
\<close>

theorem malformed_interval_or_pin_returns_failure:
  assumes "v = str ''PUB_INTVL'' \<or> v = str ''GPIO_PIN''"
    and "py_int (environ_get env v (str '''')) = None"
    and "\<not> port_handler_reached env"
  shows "get_config env = Inr (1, None) \<and> main env w = Some (SystemExit 1)"
  using get_config_malformed [OF assms] by (simp add: main_of_failure)

theorem malformed_interval_or_pin_returns_failure_witness:
  "py_int (environ_get (example_environ(str ''GPIO_PIN'' \<mapsto> str ''D4'')) (str ''GPIO_PIN'')
             (str '''')) = None \<and>
   get_config (example_environ(str ''GPIO_PIN'' \<mapsto> str ''D4'')) = Inr (1, None) \<and>
   main (example_environ(str ''GPIO_PIN'' \<mapsto> str ''D4'')) example_world = Some (SystemExit 1)"
proof -
  have a: "str ''GPIO_PIN'' = str ''PUB_INTVL'' \<or> str ''GPIO_PIN'' = str ''GPIO_PIN''"
    by simp
  have b: "py_int (environ_get (example_environ(str ''GPIO_PIN'' \<mapsto> str ''D4''))
             (str ''GPIO_PIN'') (str '''')) = None"
    by (simp add: environ_get_def py_int_examples)
  have c: "\<not> port_handler_reached (example_environ(str ''GPIO_PIN'' \<mapsto> str ''D4''))"
    by (simp add: port_handler_reached_def example_defs py_int_examples str_not_empty)
  from malformed_interval_or_pin_returns_failure [OF a b c, of example_world] b
  show ?thesis by simp
qed

text \<open>
  X3 (the exit status). On every environment in which a required variable is unset or
  empty, or a numeric one is refused by \<^verbatim>\<open>int\<close>, \<^verbatim>\<open>get_config\<close> yields no configuration
  and the process ends with exit status 1: at \<^verbatim>\<open>sys.exit(1)\<close>, or, when line 100 is
  reached, in the traceback of the \<^verbatim>\<open>UnboundLocalError\<close>.
\<close>

theorem failed_configuration_exit_status:
  assumes "v \<in> set required_vars"
    and "environ_get env v (str '''') = str '''' \<or>
         v \<in> set numeric_vars \<and> py_int (environ_get env v (str '''')) = None"
  shows "(\<exists>e. main env w = Some e \<and> exit_status e = 1) \<and>
         (\<forall>rc cfg. get_config env \<noteq> Inr (rc, Some cfg))"
proof (cases "port_handler_reached env")
  case True
  then have "get_config env = Inl UnboundLocalError"
    by (simp add: get_config_raises_iff)
  then show ?thesis by (simp add: main_of_raise)
next
  case False
  have "get_config env = Inr (1, None)"
  proof (cases "environ_get env v (str '''') = str ''''")
    case True
    from get_config_blank [OF assms(1) True False] show ?thesis .
  next
    case blank: False
    with assms(2) have num: "v \<in> set numeric_vars"
      and bad: "py_int (environ_get env v (str '''')) = None"
      by auto
    show ?thesis
    proof (cases "v = str ''ES_PORT''")
      case True
      with False blank bad have "environ_get env (str ''ES_HOST'') (str '''') = str ''''"
        by (auto simp: port_handler_reached_def)
      moreover have "str ''ES_HOST'' \<in> set required_vars" by (simp add: required_vars_def)
      ultimately show ?thesis using get_config_blank False by blast
    next
      case False
      with num have "v = str ''PUB_INTVL'' \<or> v = str ''GPIO_PIN''"
        by (auto simp: numeric_vars_def)
      from get_config_malformed [OF this bad \<open>\<not> port_handler_reached env\<close>] show ?thesis .
    qed
  qed
  then show ?thesis by (simp add: main_of_failure)
qed

theorem failed_configuration_exit_status_witness:
  "str ''ES_PORT'' \<in> set required_vars \<and> str ''ES_PORT'' \<in> set numeric_vars \<and>
   py_int (environ_get (example_environ(str ''ES_PORT'' \<mapsto> str ''http'')) (str ''ES_PORT'')
             (str '''')) = None \<and>
   (\<exists>e. main (example_environ(str ''ES_PORT'' \<mapsto> str ''http'')) example_world = Some e \<and>
      exit_status e = 1)"
proof -
  have a: "str ''ES_PORT'' \<in> set required_vars"
    by (simp add: required_vars_def)
  have b: "str ''ES_PORT'' \<in> set numeric_vars"
    by (simp add: numeric_vars_def)
  have c: "py_int (environ_get (example_environ(str ''ES_PORT'' \<mapsto> str ''http''))
             (str ''ES_PORT'') (str '''')) = None"
    by (simp add: environ_get_def py_int_examples)
  from b c have d:
    "environ_get (example_environ(str ''ES_PORT'' \<mapsto> str ''http'')) (str ''ES_PORT'') (str '''')
       = str '''' \<or>
     str ''ES_PORT'' \<in> set numeric_vars \<and>
     py_int (environ_get (example_environ(str ''ES_PORT'' \<mapsto> str ''http'')) (str ''ES_PORT'')
               (str '''')) = None"
    by simp
  from failed_configuration_exit_status [OF a d, of example_world] a b c
  show ?thesis by simp
qed

text \<open>
  X4 (success). \<^verbatim>\<open>get_config\<close> returns code 0 exactly when the three strings are not
  empty and \<^verbatim>\<open>int\<close> accepts the three numbers; the configuration it returns then holds
  the three strings as they are, the three numbers as \<^verbatim>\<open>int\<close> read them, and \<^verbatim>\<open>SENSOR\<close>.
\<close>

theorem get_config_success_iff:
  "get_config env = Inr (0, cfg) \<longleftrightarrow>
     (\<exists>port intvl pin.
        py_int (environ_get env (str ''ES_PORT'') (str '''')) = Some port \<and>
        py_int (environ_get env (str ''PUB_INTVL'') (str '''')) = Some intvl \<and>
        py_int (environ_get env (str ''GPIO_PIN'') (str '''')) = Some pin \<and>
        environ_get env (str ''ES_HOST'') (str '''') \<noteq> str '''' \<and>
        environ_get env (str ''ES_INDEX'') (str '''') \<noteq> str '''' \<and>
        environ_get env (str ''DOC_TAG'') (str '''') \<noteq> str '''' \<and>
        cfg = Some \<lparr>es_host = environ_get env (str ''ES_HOST'') (str ''''), es_port = port,
                    es_index = environ_get env (str ''ES_INDEX'') (str ''''),
                    doc_tag = environ_get env (str ''DOC_TAG'') (str ''''),
                    pub_intvl = intvl, gpio_pin = pin, sensor = SENSOR\<rparr>)"
  (is "?lhs \<longleftrightarrow> ?rhs")
proof
  assume ?lhs
  then show ?rhs by (rule get_config_success)
next
  assume ?rhs
  then show ?lhs
    by (auto simp: get_config_def Let_def py_int_empty)
qed

text \<open>
  X5 (a loaded configuration). Once \<^verbatim>\<open>get_config\<close> has returned a configuration whose
  interval \<^verbatim>\<open>time.sleep\<close> accepts, the process never ends: it is in the loop of \<^verbatim>\<open>run\<close>.
\<close>

theorem process_never_ends_once_configured:
  assumes "get_config env = Inr (0, Some config)"
    and "sleep_accepts (pub_intvl config) w"
  shows "main env w = None"
  using assms by (simp add: main_def run_None)

theorem process_never_ends_once_configured_witness:
  "get_config example_environ = Inr (0, Some example_config) \<and>
   sleep_accepts (pub_intvl example_config) example_world \<and>
   main example_environ example_world = None"
proof -
  have a: "sleep_accepts (pub_intvl example_config) example_world"
    by (simp add: sleep_accepts_def example_config_def example_world_def)
  from process_never_ends_once_configured [OF get_config_example a] get_config_example a
  show ?thesis by simp
qed

text \<open>
  X6 (one document per pass). When \<^verbatim>\<open>time.sleep\<close> accepts the interval and the driver
  succeeds at every read, each pass sends one request to the store: after \<open>n\<close> passes
  the store has received \<open>n\<close> more.
\<close>

theorem always_succeeding_sensor_publishes_every_pass:
  assumes "sleep_accepts (pub_intvl config) w"
    and "\<forall>k. \<exists>h t. read_retry_results w k = (Some h, Some t)"
  shows "\<exists>wn. passes n (loop_body es config) w = Some wn \<and>
           length (filter is_index (calls wn)) = length (filter is_index (calls w)) + n"
  using assms
proof (induction n arbitrary: w)
  case 0
  show ?case by simp
next
  case (Suc n)
  from Suc.prems(2) obtain h t
    where ok: "read_retry_results w (count_calls is_read_retry w) = (Some h, Some t)"
    by blast
  define w' where "w' = w\<lparr>calls := calls w @
       [Call_sleep (pub_intvl config), Call_read_retry (sensor config) (gpio_pin config),
        Call_now,
        Call_SensorReading h t (now_results w (count_calls is_now w)) (doc_tag config),
        Call_index (es_index config) (str ''sensor_data'')
          [str ''hum_rh'' \<mapsto> PyFloat h, str ''temp_c'' \<mapsto> PyFloat t,
           str ''timestamp'' \<mapsto> PyDatetime (now_results w (count_calls is_now w)),
           str ''location'' \<mapsto> PyStr (doc_tag config)]]\<rparr>"
  have body: "loop_body es config w = Fallthrough w'"
    unfolding w'_def by (rule loop_body_read_ok [OF Suc.prems(1) ok])
  have acc: "sleep_accepts (pub_intvl config) w'"
    using Suc.prems(1) by (simp add: w'_def sleep_accepts_def)
  have "\<forall>k. \<exists>h t. read_retry_results w' k = (Some h, Some t)"
    using Suc.prems(2) by (simp add: w'_def)
  from Suc.IH [OF acc this] obtain wn
    where "passes n (loop_body es config) w' = Some wn"
      and "length (filter is_index (calls wn)) = length (filter is_index (calls w')) + n"
    by blast
  moreover have "length (filter is_index (calls w')) = Suc (length (filter is_index (calls w)))"
    by (simp add: w'_def)
  ultimately show ?case using body by simp
qed

theorem always_succeeding_sensor_publishes_every_pass_witness:
  "sleep_accepts (pub_intvl example_config) example_world \<and>
   (\<forall>k. \<exists>h t. read_retry_results example_world k = (Some h, Some t)) \<and>
   (\<exists>wn. passes 3 (loop_body example_client example_config) example_world = Some wn \<and>
      length (filter is_index (calls wn)) = 3)"
proof -
  have acc: "sleep_accepts (pub_intvl example_config) example_world"
    by (simp add: sleep_accepts_def example_config_def example_world_def)
  have a: "\<forall>k. \<exists>h t. read_retry_results example_world k = (Some h, Some t)"
  proof (intro allI exI)
    fix k
    show "read_retry_results example_world k = (Some 55.2, Some 21.3)"
      by (simp add: example_world_def)
  qed
  have b: "calls example_world = []"
    by (simp add: example_world_def)
  from always_succeeding_sensor_publishes_every_pass
    [OF acc a, of 3 example_client]
  obtain wn where "passes 3 (loop_body example_client example_config) example_world = Some wn"
    and "length (filter is_index (calls wn)) = 3"
    using b by auto
  with acc a show ?thesis by blast
qed

text \<open>
  X7 (digits of other scripts). \<^verbatim>\<open>int\<close> reads the decimal digits of every script, so
  \<^verbatim>\<open>get_config\<close> accepts a \<^verbatim>\<open>PUB_INTVL\<close> written with the Arabic-Indic digits six and zero
  and a \<^verbatim>\<open>GPIO_PIN\<close> that is a no-break space followed by \<^verbatim>\<open>4\<close>, and returns the
  configuration of the plain digits.
\<close>

theorem get_config_reads_unicode_digits:
  "get_config (example_environ(str ''PUB_INTVL'' \<mapsto> [1638, 1632], str ''GPIO_PIN'' \<mapsto> [160, 52]))
     = Inr (0, Some example_config)"
proof -
  have "py_int [1638, 1632] = Some 60" "py_int [160, 52] = Some 4"
    by (simp_all add: int_defs unicode_spaces_def unicode_decimal_def decimal_zeros_def)
  moreover have "[1638, 1632] \<noteq> str ''''" "[160, 52] \<noteq> str ''''"
    by (simp_all add: str_def)
  ultimately show ?thesis
    by (simp add: example_defs py_int_examples str_not_empty)
qed

end
